theory Spec2Isabelle
  imports Main "HOL-Library.Word"
begin

unbundle bit_operations_syntax

section \<open>Runtime functions used by the daemon\<close>

text \<open>
  The daemon (\<^verbatim>\<open>src/daemon.ts\<close>) relies on a few functions of the JavaScript runtime:
  \<^verbatim>\<open>createHash('sha256')\<close>, \<^verbatim>\<open>Number.prototype.toString\<close>, \<^verbatim>\<open>Array.prototype.join\<close>,
  \<^verbatim>\<open>Date.prototype.toISOString\<close> and \<^verbatim>\<open>BigInt\<close>.  They are modelled here after their
  standards.  Strings are byte strings (the UTF-8 form that \<^verbatim>\<open>hash.update\<close> digests), and
  the JavaScript numbers of the history (\<^verbatim>\<open>sequence\<close>, \<^verbatim>\<open>slot\<close>, \<^verbatim>\<open>timestamp\<close>) are integers.
\<close>

subsection \<open>SHA-256 (FIPS 180-4), hex digest\<close>

type_synonym u32 = "32 word"

type_synonym sha256_state = "u32 \<times> u32 \<times> u32 \<times> u32 \<times> u32 \<times> u32 \<times> u32 \<times> u32"

definition rotr :: "nat \<Rightarrow> u32 \<Rightarrow> u32" where
  "rotr n x = (drop_bit n x) OR (push_bit (32 - n) x)"

definition Ch :: "u32 \<Rightarrow> u32 \<Rightarrow> u32 \<Rightarrow> u32" where
  "Ch x y z = (x AND y) XOR (NOT x AND z)"

definition Maj :: "u32 \<Rightarrow> u32 \<Rightarrow> u32 \<Rightarrow> u32" where
  "Maj x y z = (x AND y) XOR (x AND z) XOR (y AND z)"

definition bigSigma0 :: "u32 \<Rightarrow> u32" where
  "bigSigma0 x = rotr 2 x XOR rotr 13 x XOR rotr 22 x"

definition bigSigma1 :: "u32 \<Rightarrow> u32" where
  "bigSigma1 x = rotr 6 x XOR rotr 11 x XOR rotr 25 x"

definition smallSigma0 :: "u32 \<Rightarrow> u32" where
  "smallSigma0 x = rotr 7 x XOR rotr 18 x XOR drop_bit 3 x"

definition smallSigma1 :: "u32 \<Rightarrow> u32" where
  "smallSigma1 x = rotr 17 x XOR rotr 19 x XOR drop_bit 10 x"

text \<open>
  The round constants are the first 32 bits of the fractional parts of the cube roots of
  the first 64 primes: for a prime \<open>p\<close>, the integer cube root of \<open>p * 2 ^ 96\<close> (below
  \<open>2 ^ 36\<close>, found bit by bit from \<open>2 ^ 35\<close> down), reduced modulo \<open>2 ^ 32\<close>.
\<close>

fun cube_root_bits :: "nat \<Rightarrow> int \<Rightarrow> int \<Rightarrow> int \<Rightarrow> int" where
  "cube_root_bits 0 b r n = r"
| "cube_root_bits (Suc k) b r n =
     cube_root_bits k (b div 2) (if (r + b) * (r + b) * (r + b) \<le> n then r + b else r) n"

definition round_constant :: "int \<Rightarrow> u32" where
  "round_constant p =
     word_of_int (cube_root_bits 36 34359738368 0 (p * 79228162514264337593543950336))"

definition first_primes :: "int list" where
  "first_primes =
     [2, 3, 5, 7, 11, 13, 17, 19, 23, 29, 31, 37, 41, 43, 47, 53,
      59, 61, 67, 71, 73, 79, 83, 89, 97, 101, 103, 107, 109, 113, 127, 131,
      137, 139, 149, 151, 157, 163, 167, 173, 179, 181, 191, 193, 197, 199, 211, 223,
      227, 229, 233, 239, 241, 251, 257, 263, 269, 271, 277, 281, 283, 293, 307, 311]"

definition sha256_K :: "u32 list" where
  "sha256_K = map round_constant first_primes"

definition sha256_H0 :: sha256_state where
  "sha256_H0 = (0x6a09e667, 0xbb67ae85, 0x3c6ef372, 0xa54ff53a,
                0x510e527f, 0x9b05688c, 0x1f83d9ab, 0x5be0cd19)"

text \<open>Padding: the byte 0x80, zero bytes up to 56 modulo 64, the bit length in 8 bytes.\<close>

definition sha256_pad :: "u32 list \<Rightarrow> u32 list" where
  "sha256_pad bs =
     (let l = length bs;
          k = (64 - (l + 9) mod 64) mod 64;
          bits = (word_of_nat (8 * l) :: 64 word)
      in bs @ [0x80] @ replicate k 0 @
         map (\<lambda>i. ucast (drop_bit (8 * (7 - i)) bits) AND 0xff) [0..<8])"

fun be_words :: "nat \<Rightarrow> u32 list \<Rightarrow> u32 list" where
  "be_words 0 bs = []"
| "be_words (Suc n) bs =
     foldl (\<lambda>acc b. push_bit 8 acc OR b) 0 (take 4 bs) # be_words n (drop 4 bs)"

fun extend_schedule :: "nat \<Rightarrow> u32 list \<Rightarrow> u32 list" where
  "extend_schedule 0 w = w"
| "extend_schedule (Suc n) w =
     (let t = length w
      in extend_schedule n
           (w @ [smallSigma1 (w ! (t - 2)) + w ! (t - 7) + smallSigma0 (w ! (t - 15)) + w ! (t - 16)]))"

fun sha256_round :: "sha256_state \<Rightarrow> u32 \<times> u32 \<Rightarrow> sha256_state" where
  "sha256_round (a, b, c, d, e, f, g, h) (k, w) =
     (let t1 = h + bigSigma1 e + Ch e f g + k + w;
          t2 = bigSigma0 a + Maj a b c
      in (t1 + t2, a, b, c, d + t1, e, f, g))"

fun add_state :: "sha256_state \<Rightarrow> sha256_state \<Rightarrow> sha256_state" where
  "add_state (a, b, c, d, e, f, g, h) (a', b', c', d', e', f', g', h') =
     (a + a', b + b', c + c', d + d', e + e', f + f', g + g', h + h')"

definition sha256_compress :: "sha256_state \<Rightarrow> u32 list \<Rightarrow> sha256_state" where
  "sha256_compress hs block =
     add_state hs (foldl sha256_round hs (zip sha256_K (extend_schedule 48 block)))"

fun sha256_blocks :: "nat \<Rightarrow> sha256_state \<Rightarrow> u32 list \<Rightarrow> sha256_state" where
  "sha256_blocks 0 hs ws = hs"
| "sha256_blocks (Suc n) hs ws = sha256_blocks n (sha256_compress hs (take 16 ws)) (drop 16 ws)"

definition hex_digit :: "u32 \<Rightarrow> char" where
  "hex_digit n = ''0123456789abcdef'' ! unat (n AND 0xf)"

definition hex_u32 :: "u32 \<Rightarrow> string" where
  "hex_u32 w = map (\<lambda>i. hex_digit (drop_bit (4 * (7 - i)) w)) [0..<8]"

text \<open>\<^verbatim>\<open>createHash('sha256').update(data).digest('hex')\<close>\<close>

definition sha256_hex :: "string \<Rightarrow> string" where
  "sha256_hex s =
     (let bs = sha256_pad (map of_char s);
          ws = be_words (length bs div 4) bs
      in case sha256_blocks (length ws div 16) sha256_H0 ws of
           (a, b, c, d, e, f, g, h) \<Rightarrow> concat (map hex_u32 [a, b, c, d, e, f, g, h]))"

subsection \<open>Numbers and strings\<close>

text \<open>\<^verbatim>\<open>Number.prototype.toString\<close> on an integer: decimal digits, a minus sign when negative.\<close>

fun nat_digits :: "nat \<Rightarrow> string" where
  "nat_digits n =
     (if n < 10 then [char_of (48 + n)]
      else nat_digits (n div 10) @ [char_of (48 + n mod 10)])"

declare nat_digits.simps [simp del]

definition number_toString :: "int \<Rightarrow> string" where
  "number_toString n =
     (if n < 0 then CHR ''-'' # nat_digits (nat (- n)) else nat_digits (nat n))"

text \<open>\<^verbatim>\<open>Array.prototype.join\<close> on an array of strings.\<close>

fun join :: "string \<Rightarrow> string list \<Rightarrow> string" where
  "join sep [] = []"
| "join sep [x] = x"
| "join sep (x # y # ys) = x @ sep @ join sep (y # ys)"

subsection \<open>Dates\<close>

text \<open>
  \<^verbatim>\<open>new Date(t).toISOString()\<close> for a time value \<open>t\<close> in milliseconds since the epoch.
  A time value beyond 8.64e15 in magnitude is an invalid date, on which \<^verbatim>\<open>toISOString\<close>
  throws a RangeError (\<open>None\<close>).  Years outside 0..9999 print in the expanded form with a
  sign and six digits.
\<close>

definition pad_digits :: "nat \<Rightarrow> nat \<Rightarrow> string" where
  "pad_digits w n = replicate (w - length (nat_digits n)) CHR ''0'' @ nat_digits n"

definition civil_from_days :: "int \<Rightarrow> int \<times> nat \<times> nat" where
  "civil_from_days days =
     (let z = days + 719468;
          era = z div 146097;
          doe = z mod 146097;
          yoe = (doe - doe div 1460 + doe div 36524 - doe div 146096) div 365;
          doy = doe - (365 * yoe + yoe div 4 - yoe div 100);
          mp = (5 * doy + 2) div 153;
          d = doy - (153 * mp + 2) div 5 + 1;
          m = (if mp < 10 then mp + 3 else mp - 9);
          y = yoe + era * 400 + (if m \<le> 2 then 1 else 0)
      in (y, nat m, nat d))"

definition isoFormat :: "int \<Rightarrow> string" where
  "isoFormat t =
     (let (y, m, d) = civil_from_days (t div 86400000);
          ms = t mod 86400000;
          year = (if 0 \<le> y \<and> y \<le> 9999 then pad_digits 4 (nat y)
                  else (if y < 0 then CHR ''-'' else CHR ''+'') # pad_digits 6 (nat \<bar>y\<bar>))
      in year @ ''-'' @ pad_digits 2 m @ ''-'' @ pad_digits 2 d @ ''T''
         @ pad_digits 2 (nat (ms div 3600000)) @ '':''
         @ pad_digits 2 (nat (ms div 60000 mod 60)) @ '':''
         @ pad_digits 2 (nat (ms div 1000 mod 60)) @ ''.''
         @ pad_digits 3 (nat (ms mod 1000)) @ ''Z'')"

definition validTime :: "int \<Rightarrow> bool" where
  "validTime t \<longleftrightarrow> \<bar>t\<bar> \<le> 8640000000000000"

definition Date_toISOString :: "int \<Rightarrow> string option" where
  "Date_toISOString t = (if validTime t then Some (isoFormat t) else None)"

section \<open>Proof-of-History types\<close>

definition GENESIS_HASH :: string where
  "GENESIS_HASH = ''a1b2c3d4e5f6789012345678901234567890abcdef1234567890abcdef123456''"

datatype HistoryEventType = FEE | CLAIM | MIGRATE

datatype VaultType = BC | AMM

text \<open>The string values of the two union types, as they enter the hash and the file.\<close>

fun eventTypeString :: "HistoryEventType \<Rightarrow> string" where
  "eventTypeString FEE = ''FEE''"
| "eventTypeString CLAIM = ''CLAIM''"
| "eventTypeString MIGRATE = ''MIGRATE''"

fun vaultTypeString :: "VaultType \<Rightarrow> string" where
  "vaultTypeString BC = ''BC''"
| "vaultTypeString AMM = ''AMM''"

text \<open>
  \<^verbatim>\<open>src/daemon.ts\<close> holds two revisions of the daemon.  The balance-polling revision
  (lines 1--658) has history entries without a transaction signature; the
  transaction-sourced revision (lines 660--1475) adds \<^verbatim>\<open>txSignature\<close>.  The first is
  modelled by \<open>HistoryEntry_bal\<close>, the second by its extension \<open>HistoryEntry\<close>; constants
  of the balance-polling revision carry the suffix \<open>_bal\<close>.
\<close>

record HistoryEntry_bal =
  sequence :: int
  prevHash :: string
  eventType :: HistoryEventType
  vaultType :: VaultType
  vault :: string
  amount :: string
  balanceBefore :: string
  balanceAfter :: string
  slot :: int
  timestamp :: int
  date :: string
  hash :: string

record HistoryEntry = HistoryEntry_bal +
  txSignature :: string

record 'e HistoryLog_bal =
  version :: string
  mint :: string
  symbol :: string
  bondingCurve :: string
  creator :: string
  creatorVaultBC :: string
  creatorVaultAMM :: string
  migrated :: bool
  startedAt :: string
  lastUpdated :: string
  totalFees :: string
  entryCount :: int
  latestHash :: string
  entries :: "'e list"

record HistoryLog = "HistoryEntry HistoryLog_bal" +
  pool :: string

record VerifyResult =
  valid :: bool
  entryIndex :: "nat option"
  error :: "string option"

section \<open>Commitment and verification\<close>

text \<open>The ten leading fields of the hashed array, common to both revisions.\<close>

definition hashedFields_bal :: "'a HistoryEntry_bal_scheme \<Rightarrow> string list" where
  "hashedFields_bal entry =
     [number_toString (sequence entry),
      prevHash entry,
      eventTypeString (eventType entry),
      vaultTypeString (vaultType entry),
      vault entry,
      amount entry,
      balanceBefore entry,
      balanceAfter entry,
      number_toString (slot entry),
      number_toString (timestamp entry)]"

text \<open>The string that is hashed (\<^verbatim>\<open>data\<close> in \<^verbatim>\<open>computeEntryHash\<close>), in each revision.\<close>

definition entryData_bal :: "'a HistoryEntry_bal_scheme \<Rightarrow> string" where
  "entryData_bal entry = join ''|'' (hashedFields_bal entry)"

definition entryData :: "HistoryEntry \<Rightarrow> string" where
  "entryData entry = join ''|'' (hashedFields_bal entry @ [txSignature entry])"

definition computeEntryHash_bal :: "'a HistoryEntry_bal_scheme \<Rightarrow> string" where
  "computeEntryHash_bal entry = sha256_hex (entryData_bal entry)"

definition computeEntryHash :: "HistoryEntry \<Rightarrow> string" where
  "computeEntryHash entry = sha256_hex (entryData entry)"

definition verifyOk :: VerifyResult where
  "verifyOk = \<lparr>valid = True, entryIndex = None, error = None\<rparr>"

definition verifyFail :: "nat \<Rightarrow> string \<Rightarrow> VerifyResult" where
  "verifyFail i msg = \<lparr>valid = False, entryIndex = Some i, error = Some msg\<rparr>"

text \<open>
  The loop of \<^verbatim>\<open>verifyHistoryChain\<close>, from index \<open>i\<close> on the entries not yet visited, with
  the loop variable \<^verbatim>\<open>expectedPrevHash\<close>.  The loop is the same text in both revisions; the
  commitment function \<open>h\<close> is what differs.
\<close>

fun verifyLoop ::
  "('a HistoryEntry_bal_scheme \<Rightarrow> string) \<Rightarrow> nat \<Rightarrow> string \<Rightarrow> 'a HistoryEntry_bal_scheme list
     \<Rightarrow> VerifyResult" where
  "verifyLoop h i expectedPrevHash [] = verifyOk"
| "verifyLoop h i expectedPrevHash (entry # rest) =
     (if sequence entry \<noteq> int i + 1 then
        verifyFail i (''Expected sequence '' @ number_toString (int i + 1) @ '', got ''
                      @ number_toString (sequence entry))
      else if prevHash entry \<noteq> expectedPrevHash then verifyFail i ''prevHash mismatch''
      else if h entry \<noteq> hash entry then verifyFail i ''Hash mismatch''
      else verifyLoop h (i + 1) (hash entry) rest)"

definition verifyHistoryChain_bal ::
  "(HistoryEntry_bal, 'z) HistoryLog_bal_scheme \<Rightarrow> VerifyResult" where
  "verifyHistoryChain_bal log =
     (if length (entries log) = 0 then verifyOk
      else verifyLoop computeEntryHash_bal 0 GENESIS_HASH (entries log))"

definition verifyHistoryChain :: "HistoryLog \<Rightarrow> VerifyResult" where
  "verifyHistoryChain log =
     (if length (entries log) = 0 then verifyOk
      else verifyLoop computeEntryHash 0 GENESIS_HASH (entries log))"

section \<open>Appending to the history\<close>

text \<open>
  \<^verbatim>\<open>createHistoryEntry\<close> reads the current log of the daemon, here its first argument.
  \<^verbatim>\<open>entryWithoutHash\<close> has no \<^verbatim>\<open>hash\<close> property in the source; the model gives it the empty
  string there, which \<open>computeEntryHash\<close> does not read.  \<open>None\<close> is the RangeError of
  \<^verbatim>\<open>toISOString\<close> on an invalid date.
\<close>

definition createHistoryEntry_bal ::
  "('a HistoryEntry_bal_scheme, 'z) HistoryLog_bal_scheme \<Rightarrow> HistoryEventType \<Rightarrow> VaultType \<Rightarrow> string
     \<Rightarrow> string \<Rightarrow> string \<Rightarrow> string \<Rightarrow> int \<Rightarrow> int \<Rightarrow> HistoryEntry_bal option" where
  "createHistoryEntry_bal log eventType' vaultType' vault' amount' balanceBefore' balanceAfter'
       slot' timestamp' =
     (let prevHash' = (if length (entries log) > 0 then hash (last (entries log)) else GENESIS_HASH);
          sequence' = int (length (entries log)) + 1
      in case Date_toISOString timestamp' of
           None \<Rightarrow> None
         | Some date' \<Rightarrow>
             let entryWithoutHash =
                   \<lparr>sequence = sequence', prevHash = prevHash', eventType = eventType',
                    vaultType = vaultType', vault = vault', amount = amount',
                    balanceBefore = balanceBefore', balanceAfter = balanceAfter', slot = slot',
                    timestamp = timestamp', date = date', hash = []\<rparr>
             in Some (entryWithoutHash\<lparr>hash := computeEntryHash_bal entryWithoutHash\<rparr>))"

definition createHistoryEntry ::
  "HistoryLog \<Rightarrow> HistoryEventType \<Rightarrow> VaultType \<Rightarrow> string
     \<Rightarrow> string \<Rightarrow> string \<Rightarrow> string \<Rightarrow> int \<Rightarrow> int \<Rightarrow> string \<Rightarrow> HistoryEntry option" where
  "createHistoryEntry log eventType' vaultType' vault' amount' balanceBefore' balanceAfter'
       slot' timestamp' txSignature' =
     (let prevHash' = (if length (entries log) > 0 then hash (last (entries log)) else GENESIS_HASH);
          sequence' = int (length (entries log)) + 1
      in case Date_toISOString timestamp' of
           None \<Rightarrow> None
         | Some date' \<Rightarrow>
             let entryWithoutHash =
                   \<lparr>sequence = sequence', prevHash = prevHash', eventType = eventType',
                    vaultType = vaultType', vault = vault', amount = amount',
                    balanceBefore = balanceBefore', balanceAfter = balanceAfter', slot = slot',
                    timestamp = timestamp', date = date', hash = [],
                    txSignature = txSignature'\<rparr>
             in Some (entryWithoutHash\<lparr>hash := computeEntryHash entryWithoutHash\<rparr>))"

text \<open>
  A candidate event: the arguments with which \<^verbatim>\<open>handleBalanceChange\<close>, \<^verbatim>\<open>processTransaction\<close>
  and \<^verbatim>\<open>processAMMTransaction\<close> call \<^verbatim>\<open>createHistoryEntry\<close>.  Appending is the pair of statements
  \<^verbatim>\<open>const entry = this.createHistoryEntry(...); this.historyLog.entries.push(entry)\<close>; when
  \<^verbatim>\<open>createHistoryEntry\<close> throws, nothing is pushed.
\<close>

record Candidate_bal =
  c_eventType :: HistoryEventType
  c_vaultType :: VaultType
  c_vault :: string
  c_amount :: string
  c_balanceBefore :: string
  c_balanceAfter :: string
  c_slot :: int
  c_timestamp :: int

record Candidate = Candidate_bal +
  c_txSignature :: string

definition appendEntry_bal ::
  "(HistoryEntry_bal, 'z) HistoryLog_bal_scheme \<Rightarrow> 'c Candidate_bal_scheme
     \<Rightarrow> (HistoryEntry_bal, 'z) HistoryLog_bal_scheme" where
  "appendEntry_bal log c =
     (case createHistoryEntry_bal log (c_eventType c) (c_vaultType c) (c_vault c) (c_amount c)
             (c_balanceBefore c) (c_balanceAfter c) (c_slot c) (c_timestamp c) of
        None \<Rightarrow> log
      | Some entry \<Rightarrow> log\<lparr>entries := entries log @ [entry]\<rparr>)"

definition appendEntry :: "HistoryLog \<Rightarrow> Candidate \<Rightarrow> HistoryLog" where
  "appendEntry log c =
     (case createHistoryEntry log (c_eventType c) (c_vaultType c) (c_vault c) (c_amount c)
             (c_balanceBefore c) (c_balanceAfter c) (c_slot c) (c_timestamp c) (c_txSignature c) of
        None \<Rightarrow> log
      | Some entry \<Rightarrow> log\<lparr>entries := entries log @ [entry]\<rparr>)"

section \<open>The verifier as the specification words it\<close>

text \<open>
  The hash that entry \<open>i\<close> must name as its predecessor, and the first of the three checks
  (sequence, linkage, commitment) that entry \<open>i\<close> fails, if any.
\<close>

definition expectedPrev :: "'a HistoryEntry_bal_scheme list \<Rightarrow> nat \<Rightarrow> string" where
  "expectedPrev es i = (if i = 0 then GENESIS_HASH else hash (es ! (i - 1)))"

definition entryCheck ::
  "('a HistoryEntry_bal_scheme \<Rightarrow> string) \<Rightarrow> 'a HistoryEntry_bal_scheme list \<Rightarrow> nat
     \<Rightarrow> string option" where
  "entryCheck h es i =
     (if sequence (es ! i) \<noteq> int i + 1 then
        Some (''Expected sequence '' @ number_toString (int i + 1) @ '', got ''
              @ number_toString (sequence (es ! i)))
      else if prevHash (es ! i) \<noteq> expectedPrev es i then Some ''prevHash mismatch''
      else if h (es ! i) \<noteq> hash (es ! i) then Some ''Hash mismatch''
      else None)"

definition firstFailure ::
  "('a HistoryEntry_bal_scheme \<Rightarrow> string) \<Rightarrow> 'a HistoryEntry_bal_scheme list
     \<Rightarrow> (nat \<times> string) option" where
  "firstFailure h es =
     (case find (\<lambda>i. entryCheck h es i \<noteq> None) [0..<length es] of
        None \<Rightarrow> None
      | Some i \<Rightarrow> map_option (Pair i) (entryCheck h es i))"

definition verifySpec ::
  "('a HistoryEntry_bal_scheme \<Rightarrow> string) \<Rightarrow> 'a HistoryEntry_bal_scheme list \<Rightarrow> VerifyResult" where
  "verifySpec h es =
     (case firstFailure h es of None \<Rightarrow> verifyOk | Some (i, msg) \<Rightarrow> verifyFail i msg)"

text \<open>A change of one field of an entry to a given value.\<close>

datatype FieldUpdate =
    SetSequence int | SetPrevHash string | SetEventType HistoryEventType
  | SetVaultType VaultType | SetVault string | SetAmount string | SetBalanceBefore string
  | SetBalanceAfter string | SetSlot int | SetTimestamp int | SetDate string | SetHash string
  | SetTxSignature string

fun mutate :: "FieldUpdate \<Rightarrow> HistoryEntry \<Rightarrow> HistoryEntry" where
  "mutate (SetSequence v) e = e\<lparr>sequence := v\<rparr>"
| "mutate (SetPrevHash v) e = e\<lparr>prevHash := v\<rparr>"
| "mutate (SetEventType v) e = e\<lparr>eventType := v\<rparr>"
| "mutate (SetVaultType v) e = e\<lparr>vaultType := v\<rparr>"
| "mutate (SetVault v) e = e\<lparr>vault := v\<rparr>"
| "mutate (SetAmount v) e = e\<lparr>amount := v\<rparr>"
| "mutate (SetBalanceBefore v) e = e\<lparr>balanceBefore := v\<rparr>"
| "mutate (SetBalanceAfter v) e = e\<lparr>balanceAfter := v\<rparr>"
| "mutate (SetSlot v) e = e\<lparr>slot := v\<rparr>"
| "mutate (SetTimestamp v) e = e\<lparr>timestamp := v\<rparr>"
| "mutate (SetDate v) e = e\<lparr>date := v\<rparr>"
| "mutate (SetHash v) e = e\<lparr>hash := v\<rparr>"
| "mutate (SetTxSignature v) e = e\<lparr>txSignature := v\<rparr>"

text \<open>The updates of a field that enters the hashed string and is not checked on its own.\<close>

fun contentUpdate :: "FieldUpdate \<Rightarrow> bool" where
  "contentUpdate (SetDate v) = False"
| "contentUpdate (SetHash v) = False"
| "contentUpdate (SetSequence v) = False"
| "contentUpdate (SetPrevHash v) = False"
| "contentUpdate u = True"

text \<open>Two different strings with the same SHA-256 digest.\<close>

definition sha256_collision :: "string \<Rightarrow> string \<Rightarrow> bool" where
  "sha256_collision x y \<longleftrightarrow> x \<noteq> y \<and> sha256_hex x = sha256_hex y"

text \<open>What \<^verbatim>\<open>verifyHistoryChain\<close> answers after the update \<open>u\<close> of entry \<open>i\<close> of a valid chain.\<close>

fun mutationVerdict :: "FieldUpdate \<Rightarrow> nat \<Rightarrow> HistoryEntry \<Rightarrow> VerifyResult" where
  "mutationVerdict (SetDate v) i e = verifyOk"
| "mutationVerdict (SetSequence v) i e =
     verifyFail i (''Expected sequence '' @ number_toString (int i + 1) @ '', got ''
                   @ number_toString v)"
| "mutationVerdict (SetPrevHash v) i e = verifyFail i ''prevHash mismatch''"
| "mutationVerdict (SetHash v) i e = verifyFail i ''Hash mismatch''"
| "mutationVerdict u i e =
     (if sha256_collision (entryData (mutate u e)) (entryData e) then verifyOk
      else verifyFail i ''Hash mismatch'')"

text \<open>A chain on which every entry passes its three checks.\<close>

definition chainOk :: "('a HistoryEntry_bal_scheme \<Rightarrow> string) \<Rightarrow> 'a HistoryEntry_bal_scheme list \<Rightarrow> bool" where
  "chainOk h es \<longleftrightarrow> (\<forall>i<length es. entryCheck h es i = None)"

section \<open>Example data\<close>

text \<open>
  A fresh history as \<^verbatim>\<open>initializeHistory\<close> creates it (the addresses shortened), in both
  revisions, and two fee events.
\<close>

definition exampleLog_bal :: "HistoryEntry_bal HistoryLog_bal" where
  "exampleLog_bal =
     \<lparr>version = ''1.0.0'', mint = ''MintAddr'', symbol = ''TOKEN'', bondingCurve = ''CurveAddr'',
      creator = ''CreatorAddr'', creatorVaultBC = ''VaultBC'', creatorVaultAMM = ''VaultAMM'',
      migrated = False, startedAt = ''2023-11-14T22:13:20.000Z'',
      lastUpdated = ''2023-11-14T22:13:20.000Z'', totalFees = ''0'', entryCount = 0,
      latestHash = GENESIS_HASH, entries = []\<rparr>"

definition exampleLog :: HistoryLog where
  "exampleLog =
     \<lparr>version = ''1.0.0'', mint = ''MintAddr'', symbol = ''TOKEN'', bondingCurve = ''CurveAddr'',
      creator = ''CreatorAddr'', creatorVaultBC = ''VaultBC'', creatorVaultAMM = ''VaultAMM'',
      migrated = False, startedAt = ''2023-11-14T22:13:20.000Z'',
      lastUpdated = ''2023-11-14T22:13:20.000Z'', totalFees = ''0'', entryCount = 0,
      latestHash = GENESIS_HASH, entries = [], pool = ''PoolAddr''\<rparr>"

definition fee1 :: Candidate where
  "fee1 = \<lparr>c_eventType = FEE, c_vaultType = BC, c_vault = ''VaultBC'', c_amount = ''500'',
            c_balanceBefore = ''1000'', c_balanceAfter = ''1500'', c_slot = 7,
            c_timestamp = 1700000000000, c_txSignature = ''Sig1''\<rparr>"

definition fee2 :: Candidate where
  "fee2 = \<lparr>c_eventType = FEE, c_vaultType = AMM, c_vault = ''VaultAMM'', c_amount = ''20'',
            c_balanceBefore = ''0'', c_balanceAfter = ''20'', c_slot = 9,
            c_timestamp = 1700000002000, c_txSignature = ''Sig2''\<rparr>"

text \<open>An entry of the balance-polling revision, with the fields of \<open>fee1\<close>.\<close>

definition exampleEntry_bal :: HistoryEntry_bal where
  "exampleEntry_bal =
     \<lparr>sequence = 1, prevHash = GENESIS_HASH, eventType = FEE, vaultType = BC, vault = ''VaultBC'',
      amount = ''500'', balanceBefore = ''1000'', balanceAfter = ''1500'', slot = 7,
      timestamp = 1700000000000, date = ''2023-11-14T22:13:20.000Z'', hash = ''00''\<rparr>"

section \<open>The data source and the environment of a poll\<close>

text \<open>
  A call to the RPC connection either throws or returns.  What the connection answers, the
  clock, and whether a file write or a configured callback throws are not decided by the
  daemon: \<open>World\<close> holds them for one poll tick.  The callbacks \<^verbatim>\<open>onMigration\<close> and, in the
  transaction-sourced revision, \<^verbatim>\<open>onHistoryEntry\<close> are the last statement of their
  \<^verbatim>\<open>try\<close> block, so whether they throw changes nothing; logging has no effect on the state.
\<close>

datatype 'a rpc = Throws | Returns 'a

record ConfirmedSignatureInfo =
  signature :: string

record TokenBalance =
  accountIndex :: nat
  uiTokenAmount_amount :: string

record TransactionMeta =
  preBalances :: "int list"
  postBalances :: "int list"
  preTokenBalances :: "TokenBalance list option"
  postTokenBalances :: "TokenBalance list option"
  loadedAddresses :: "(string list \<times> string list) option"

record TransactionResponse =
  meta :: "TransactionMeta option"
  staticAccountKeys :: "string list"
  tx_slot :: int
  blockTime :: "int option"

record World =
  now :: int
  getAccountInfo :: "string \<Rightarrow> 8 word list option rpc"
  getSlot :: "int rpc"
  getBalance :: "string \<Rightarrow> int rpc"
  getSignaturesForAddress :: "string \<Rightarrow> ConfirmedSignatureInfo list rpc"
  getTransaction :: "string \<Rightarrow> TransactionResponse option rpc"
  writeFileThrows :: bool
  onFeeDetectedThrows :: bool
  onHistoryEntryThrows :: bool

subsection \<open>The bonding curve account\<close>

record BondingCurveData =
  virtualTokenReserves :: "64 word"
  virtualSolReserves :: "64 word"
  realTokenReserves :: "64 word"
  realSolReserves :: "64 word"
  tokenTotalSupply :: "64 word"
  complete :: bool
  bc_creator :: "8 word list"

definition readBigUInt64LE :: "8 word list \<Rightarrow> nat \<Rightarrow> 64 word" where
  "readBigUInt64LE data offset =
     foldr (\<lambda>b acc. ucast b + 256 * acc) (take 8 (drop offset data)) 0"

definition deserializeBondingCurve :: "8 word list \<Rightarrow> BondingCurveData option" where
  "deserializeBondingCurve data =
     (if length data < 81 then None
      else Some \<lparr>virtualTokenReserves = readBigUInt64LE data 8,
                 virtualSolReserves = readBigUInt64LE data 16,
                 realTokenReserves = readBigUInt64LE data 24,
                 realSolReserves = readBigUInt64LE data 32,
                 tokenTotalSupply = readBigUInt64LE data 40,
                 complete = (data ! 48 = 1),
                 bc_creator = take 32 (drop 49 data)\<rparr>)"

subsection \<open>BigInt from a string\<close>

text \<open>
  \<^verbatim>\<open>BigInt(s)\<close>: white space and line terminators are trimmed (a character of the model is
  a code unit below 256; of these the tab, the line feed, the vertical tab, the form feed,
  the carriage return, the space and the no-break space count); the empty string is 0; a decimal literal may carry a sign; a literal with the prefix \<^verbatim>\<open>0x\<close>, \<^verbatim>\<open>0o\<close> or \<^verbatim>\<open>0b\<close>
  carries none; anything else is a SyntaxError (\<open>None\<close>).
\<close>

definition isSpace :: "char \<Rightarrow> bool" where
  "isSpace c \<longleftrightarrow> of_char c \<in> {9, 10, 11, 12, 13, 32, 160 :: nat}"

definition digitValue :: "char \<Rightarrow> nat option" where
  "digitValue c =
     (let n = (of_char c :: nat)
      in if 48 \<le> n \<and> n \<le> 57 then Some (n - 48)
         else if 97 \<le> n \<and> n \<le> 102 then Some (n - 87)
         else if 65 \<le> n \<and> n \<le> 70 then Some (n - 55)
         else None)"

fun digitsFrom :: "nat \<Rightarrow> int \<Rightarrow> string \<Rightarrow> int option" where
  "digitsFrom base acc [] = Some acc"
| "digitsFrom base acc (c # cs) =
     (case digitValue c of
        None \<Rightarrow> None
      | Some d \<Rightarrow> if d < base then digitsFrom base (acc * int base + int d) cs else None)"

definition parseDigits :: "nat \<Rightarrow> string \<Rightarrow> int option" where
  "parseDigits base s = (if s = [] then None else digitsFrom base 0 s)"

definition BigInt_parse :: "string \<Rightarrow> int option" where
  "BigInt_parse s =
     (let t = rev (dropWhile isSpace (rev (dropWhile isSpace s)))
      in if t = [] then Some 0
         else if take 2 t = ''0x'' \<or> take 2 t = ''0X'' then parseDigits 16 (drop 2 t)
         else if take 2 t = ''0o'' \<or> take 2 t = ''0O'' then parseDigits 8 (drop 2 t)
         else if take 2 t = ''0b'' \<or> take 2 t = ''0B'' then parseDigits 2 (drop 2 t)
         else if hd t = CHR ''-'' then map_option uminus (parseDigits 10 (tl t))
         else if hd t = CHR ''+'' then parseDigits 10 (tl t)
         else parseDigits 10 t)"

section \<open>The history file\<close>

text \<open>
  The file holds the text \<^verbatim>\<open>JSON.stringify(historyLog, null, 2)\<close>, read back by
  \<^verbatim>\<open>JSON.parse\<close>.  The model keeps the JSON value and leaves the text out: printing a value
  and parsing the text again is taken to give the value back.  A file whose text is not
  JSON is \<open>None\<close>.  A number of the model is an integer; printing and parsing give a
  number back as it was when a double holds it exactly, which is so for the safe integers
  (\<open>safeInteger\<close> below).
\<close>

datatype json =
    JNull | JBool bool | JNumber int | JString string | JArray "json list"
  | JObject "(string \<times> json) list"

definition historyEntryToJSON :: "HistoryEntry \<Rightarrow> json" where
  "historyEntryToJSON e =
     JObject
       [(''sequence'', JNumber (sequence e)),
        (''prevHash'', JString (prevHash e)),
        (''eventType'', JString (eventTypeString (eventType e))),
        (''vaultType'', JString (vaultTypeString (vaultType e))),
        (''vault'', JString (vault e)),
        (''amount'', JString (amount e)),
        (''balanceBefore'', JString (balanceBefore e)),
        (''balanceAfter'', JString (balanceAfter e)),
        (''slot'', JNumber (slot e)),
        (''timestamp'', JNumber (timestamp e)),
        (''date'', JString (date e)),
        (''txSignature'', JString (txSignature e)),
        (''hash'', JString (hash e))]"

definition historyLogToJSON :: "HistoryLog \<Rightarrow> json" where
  "historyLogToJSON log =
     JObject
       [(''version'', JString (version log)),
        (''mint'', JString (mint log)),
        (''symbol'', JString (symbol log)),
        (''bondingCurve'', JString (bondingCurve log)),
        (''creator'', JString (creator log)),
        (''creatorVaultBC'', JString (creatorVaultBC log)),
        (''creatorVaultAMM'', JString (creatorVaultAMM log)),
        (''pool'', JString (pool log)),
        (''migrated'', JBool (migrated log)),
        (''startedAt'', JString (startedAt log)),
        (''lastUpdated'', JString (lastUpdated log)),
        (''totalFees'', JString (totalFees log)),
        (''entryCount'', JNumber (entryCount log)),
        (''latestHash'', JString (latestHash log)),
        (''entries'', JArray (map historyEntryToJSON (entries log)))]"

text \<open>
  \<^verbatim>\<open>JSON.parse(content) as HistoryLog\<close> is an unchecked cast.  The model reads the properties
  of the declared type.  A value that lacks one, or holds one of another type, is outside
  the typed model: it is \<open>None\<close> here, whereas the cast keeps it.  What is proved about a
  loaded file is therefore stated for files that hold the JSON value of a \<open>HistoryLog\<close>,
  as \<^verbatim>\<open>saveHistory\<close> writes it.
\<close>

definition jsonString :: "(string \<times> json) list \<Rightarrow> string \<Rightarrow> string option" where
  "jsonString props k = (case map_of props k of Some (JString s) \<Rightarrow> Some s | _ \<Rightarrow> None)"

definition jsonNumber :: "(string \<times> json) list \<Rightarrow> string \<Rightarrow> int option" where
  "jsonNumber props k = (case map_of props k of Some (JNumber n) \<Rightarrow> Some n | _ \<Rightarrow> None)"

definition jsonBool :: "(string \<times> json) list \<Rightarrow> string \<Rightarrow> bool option" where
  "jsonBool props k = (case map_of props k of Some (JBool b) \<Rightarrow> Some b | _ \<Rightarrow> None)"

definition eventTypeOfString :: "string \<Rightarrow> HistoryEventType option" where
  "eventTypeOfString s =
     (if s = ''FEE'' then Some FEE else if s = ''CLAIM'' then Some CLAIM
      else if s = ''MIGRATE'' then Some MIGRATE else None)"

definition vaultTypeOfString :: "string \<Rightarrow> VaultType option" where
  "vaultTypeOfString s =
     (if s = ''BC'' then Some BC else if s = ''AMM'' then Some AMM else None)"

definition asHistoryEntry :: "json \<Rightarrow> HistoryEntry option" where
  "asHistoryEntry j =
     (case j of
        JObject props \<Rightarrow>
          (case (jsonNumber props ''sequence'', jsonString props ''prevHash'',
                 Option.bind (jsonString props ''eventType'') eventTypeOfString,
                 Option.bind (jsonString props ''vaultType'') vaultTypeOfString,
                 jsonString props ''vault'', jsonString props ''amount'',
                 jsonString props ''balanceBefore'', jsonString props ''balanceAfter'',
                 jsonNumber props ''slot'', jsonNumber props ''timestamp'',
                 jsonString props ''date'', jsonString props ''hash'',
                 jsonString props ''txSignature'') of
             (Some sq, Some ph, Some et, Some vt, Some v, Some a, Some bb, Some ba, Some sl,
              Some ts, Some d, Some h, Some sg) \<Rightarrow>
               Some \<lparr>sequence = sq, prevHash = ph, eventType = et, vaultType = vt, vault = v,
                     amount = a, balanceBefore = bb, balanceAfter = ba, slot = sl,
                     timestamp = ts, date = d, hash = h, txSignature = sg\<rparr>
           | _ \<Rightarrow> None)
      | _ \<Rightarrow> None)"

definition asHistoryLog :: "json \<Rightarrow> HistoryLog option" where
  "asHistoryLog j =
     (case j of
        JObject props \<Rightarrow>
          (case (jsonString props ''version'', jsonString props ''mint'',
                 jsonString props ''symbol'', jsonString props ''bondingCurve'',
                 jsonString props ''creator'', jsonString props ''creatorVaultBC'',
                 jsonString props ''creatorVaultAMM'', jsonString props ''pool'',
                 jsonBool props ''migrated'', jsonString props ''startedAt'',
                 jsonString props ''lastUpdated'', jsonString props ''totalFees'',
                 jsonNumber props ''entryCount'', jsonString props ''latestHash'',
                 (case map_of props ''entries'' of
                    Some (JArray js) \<Rightarrow> those (map asHistoryEntry js)
                  | _ \<Rightarrow> None)) of
             (Some v, Some m, Some s, Some b, Some c, Some vb, Some va, Some p, Some mg,
              Some sa, Some lu, Some tf, Some ec, Some lh, Some es) \<Rightarrow>
               Some \<lparr>version = v, mint = m, symbol = s, bondingCurve = b, creator = c,
                     creatorVaultBC = vb, creatorVaultAMM = va, migrated = mg, startedAt = sa,
                     lastUpdated = lu, totalFees = tf, entryCount = ec, latestHash = lh,
                     entries = es, pool = p\<rparr>
           | _ \<Rightarrow> None)
      | _ \<Rightarrow> None)"




section \<open>The daemon, transaction-sourced revision\<close>

text \<open>Public keys stand as their base58 strings.\<close>

record TokenInfo_bal =
  ti_mint :: string
  ti_symbol :: string
  ti_bondingCurve :: string
  ti_creator :: string
  ti_creatorVaultBC :: string
  ti_creatorVaultAMM :: string
  ti_migrated :: bool

record TokenInfo = TokenInfo_bal +
  ti_pool :: string

text \<open>
  The fields of \<^verbatim>\<open>ValidatorLiteDaemon\<close> that the poll reads or writes, the configured
  \<^verbatim>\<open>historyFile\<close>, and the files on disk.
\<close>

record Daemon =
  running :: bool
  tokenInfo :: "TokenInfo option"
  lastBCSignature :: "string option"
  lastAMMSignature :: "string option"
  processedTxs :: "string set"
  bcFees :: int
  ammFees :: int
  historyLog :: "HistoryLog option"
  historyFile :: "string option"
  files :: "string \<rightharpoonup> json option"

text \<open>
  \<^verbatim>\<open>saveHistory\<close> refreshes the summary fields and writes the file; it returns at once
  when there is no history or the configured file name is missing or empty
  (\<^verbatim>\<open>!this.config.historyFile\<close>).  When the write throws, the fields are already refreshed
  and the file is as before; every caller within a poll catches the exception, and
  \<open>saveHistoryThrows\<close> says whether there is one.
\<close>

definition saveHistory :: "World \<Rightarrow> Daemon \<Rightarrow> Daemon" where
  "saveHistory w st =
     (case historyLog st of
        None \<Rightarrow> st
      | Some log \<Rightarrow>
          (case historyFile st of
             None \<Rightarrow> st
           | Some path \<Rightarrow>
               if path = [] then st
               else
                 let log' = log\<lparr>lastUpdated := isoFormat (now w),
                                totalFees := number_toString (bcFees st + ammFees st),
                                entryCount := int (length (entries log)),
                                latestHash := (if length (entries log) > 0
                                               then hash (last (entries log))
                                               else latestHash log)\<rparr>
                 in st\<lparr>historyLog := Some log',
                        files := (if writeFileThrows w then files st
                                  else (files st)(path \<mapsto> Some (historyLogToJSON log')))\<rparr>))"





definition checkMigration :: "World \<Rightarrow> Daemon \<Rightarrow> Daemon" where
  "checkMigration w st =
     (case tokenInfo st of
        None \<Rightarrow> st
      | Some ti \<Rightarrow>
          (case getAccountInfo w (ti_bondingCurve ti) of
             Throws \<Rightarrow> st
           | Returns None \<Rightarrow> st
           | Returns (Some data) \<Rightarrow>
               (case deserializeBondingCurve data of
                  None \<Rightarrow> st
                | Some bcData \<Rightarrow>
                    if complete bcData \<and> \<not> ti_migrated ti then
                      let st1 = st\<lparr>tokenInfo := Some (ti\<lparr>ti_migrated := True\<rparr>)\<rparr>
                      in (case historyLog st1 of
                            None \<Rightarrow> st1
                          | Some log \<Rightarrow>
                              saveHistory w (st1\<lparr>historyLog := Some (log\<lparr>migrated := True\<rparr>)\<rparr>))
                    else st)))"

subsection \<open>From a transaction to a history entry\<close>

fun indexOf :: "'a list \<Rightarrow> 'a \<Rightarrow> nat option" where
  "indexOf [] x = None"
| "indexOf (y # ys) x = (if y = x then Some 0 else map_option Suc (indexOf ys x))"

text \<open>\<^verbatim>\<open>balances[i] || 0\<close>\<close>

definition balanceAt :: "int list \<Rightarrow> nat \<Rightarrow> int" where
  "balanceAt balances i = (if i < length balances then balances ! i else 0)"

definition accountKeysOf :: "TransactionResponse \<Rightarrow> TransactionMeta \<Rightarrow> string list" where
  "accountKeysOf tx m =
     staticAccountKeys tx @
     (case loadedAddresses m of None \<Rightarrow> [] | Some (writable, readonly) \<Rightarrow> writable @ readonly)"

text \<open>
  The tail shared by \<^verbatim>\<open>processTransaction\<close> and \<^verbatim>\<open>processAMMTransaction\<close> once the fee total
  is raised: the callback, then the entry.  A throw of \<^verbatim>\<open>onFeeDetected\<close>, of \<^verbatim>\<open>toISOString\<close>
  inside \<^verbatim>\<open>createHistoryEntry\<close> or of \<^verbatim>\<open>saveHistory\<close> is caught by the caller's \<^verbatim>\<open>catch\<close>.
\<close>

definition recordFee ::
  "World \<Rightarrow> VaultType \<Rightarrow> string \<Rightarrow> int \<Rightarrow> int \<Rightarrow> int \<Rightarrow> TransactionResponse \<Rightarrow> string
     \<Rightarrow> Daemon \<Rightarrow> Daemon" where
  "recordFee w vaultType' vault' delta preBalance postBalance tx sig st =
     (if onFeeDetectedThrows w then st
      else
        case historyLog st of
          None \<Rightarrow> st
        | Some log \<Rightarrow>
            (case createHistoryEntry log FEE vaultType' vault' (number_toString delta)
                    (number_toString preBalance) (number_toString postBalance) (tx_slot tx)
                    ((case blockTime tx of None \<Rightarrow> 0 | Some t \<Rightarrow> t) * 1000) sig of
               None \<Rightarrow> st
             | Some entry \<Rightarrow>
                 saveHistory w (st\<lparr>historyLog := Some (log\<lparr>entries := entries log @ [entry]\<rparr>)\<rparr>)))"

definition processTransaction ::
  "World \<Rightarrow> VaultType \<Rightarrow> string \<Rightarrow> ConfirmedSignatureInfo \<Rightarrow> Daemon \<Rightarrow> Daemon" where
  "processTransaction w vaultType' vault' sigInfo st =
     (case tokenInfo st of
        None \<Rightarrow> st
      | Some ti \<Rightarrow>
          (case getTransaction w (signature sigInfo) of
             Throws \<Rightarrow> st
           | Returns None \<Rightarrow> st
           | Returns (Some tx) \<Rightarrow>
               (case meta tx of
                  None \<Rightarrow> st
                | Some m \<Rightarrow>
                    let accountKeys = accountKeysOf tx m
                    in if \<not> (ti_mint ti \<in> set accountKeys \<or> ti_bondingCurve ti \<in> set accountKeys)
                       then st
                       else
                         (case indexOf accountKeys vault' of
                            None \<Rightarrow> st
                          | Some vaultIndex \<Rightarrow>
                              let preBalance = balanceAt (preBalances m) vaultIndex;
                                  postBalance = balanceAt (postBalances m) vaultIndex;
                                  delta = postBalance - preBalance
                              in if delta \<le> 0 then st
                                 else recordFee w vaultType' vault' delta preBalance postBalance
                                        tx (signature sigInfo)
                                        (st\<lparr>bcFees := bcFees st + delta\<rparr>)))))"

text \<open>
  The two loops of \<^verbatim>\<open>processAMMTransaction\<close> over the token balances: the amount of the
  first balance of the vault, 0 when there is none, \<open>None\<close> when \<^verbatim>\<open>BigInt\<close> throws.
\<close>

fun findTokenBalance :: "string list \<Rightarrow> string \<Rightarrow> TokenBalance list \<Rightarrow> int option" where
  "findTokenBalance accountKeys vaultAddress [] = Some 0"
| "findTokenBalance accountKeys vaultAddress (bal # rest) =
     (if accountIndex bal < length accountKeys \<and> accountKeys ! accountIndex bal = vaultAddress
      then BigInt_parse (uiTokenAmount_amount bal)
      else findTokenBalance accountKeys vaultAddress rest)"

definition processAMMTransaction ::
  "World \<Rightarrow> string \<Rightarrow> ConfirmedSignatureInfo \<Rightarrow> Daemon \<Rightarrow> Daemon" where
  "processAMMTransaction w vault' sigInfo st =
     (case tokenInfo st of
        None \<Rightarrow> st
      | Some ti \<Rightarrow>
          (case getTransaction w (signature sigInfo) of
             Throws \<Rightarrow> st
           | Returns None \<Rightarrow> st
           | Returns (Some tx) \<Rightarrow>
               (case meta tx of
                  None \<Rightarrow> st
                | Some m \<Rightarrow>
                    let accountKeys = accountKeysOf tx m
                    in if \<not> (ti_mint ti \<in> set accountKeys \<or> ti_pool ti \<in> set accountKeys)
                       then st
                       else
                         (case findTokenBalance accountKeys vault'
                                 (case preTokenBalances m of None \<Rightarrow> [] | Some bs \<Rightarrow> bs) of
                            None \<Rightarrow> st
                          | Some preBalance \<Rightarrow>
                              (case findTokenBalance accountKeys vault'
                                      (case postTokenBalances m of None \<Rightarrow> [] | Some bs \<Rightarrow> bs) of
                                 None \<Rightarrow> st
                               | Some postBalance \<Rightarrow>
                                   let delta = postBalance - preBalance
                                   in if delta \<le> 0 then st
                                      else recordFee w AMM vault' delta preBalance postBalance
                                             tx (signature sigInfo)
                                             (st\<lparr>ammFees := ammFees st + delta\<rparr>))))))"

subsection \<open>The signature cursor\<close>

text \<open>
  The loop that collects \<^verbatim>\<open>newSigs\<close>: it stops at the last seen signature and skips the
  processed ones.  The same loop stands in \<^verbatim>\<open>pollVaultTransactions\<close> and in
  \<^verbatim>\<open>pollAMMVaultTransactions\<close>.
\<close>

fun collectNew ::
  "string \<Rightarrow> string set \<Rightarrow> ConfirmedSignatureInfo list \<Rightarrow> ConfirmedSignatureInfo list" where
  "collectNew lastSignature processed [] = []"
| "collectNew lastSignature processed (sig # rest) =
     (if signature sig = lastSignature then []
      else if signature sig \<notin> processed then sig # collectNew lastSignature processed rest
      else collectNew lastSignature processed rest)"

text \<open>The loops over \<^verbatim>\<open>newSigs.reverse()\<close>: process, then add to the processed set.\<close>

fun processAll ::
  "World \<Rightarrow> VaultType \<Rightarrow> string \<Rightarrow> ConfirmedSignatureInfo list \<Rightarrow> Daemon \<Rightarrow> Daemon" where
  "processAll w vaultType' vault' [] st = st"
| "processAll w vaultType' vault' (sig # rest) st =
     processAll w vaultType' vault' rest
       ((processTransaction w vaultType' vault' sig st)
          \<lparr>processedTxs :=
             insert (signature sig) (processedTxs (processTransaction w vaultType' vault' sig st))\<rparr>)"

fun processAllAMM :: "World \<Rightarrow> string \<Rightarrow> ConfirmedSignatureInfo list \<Rightarrow> Daemon \<Rightarrow> Daemon" where
  "processAllAMM w vault' [] st = st"
| "processAllAMM w vault' (sig # rest) st =
     processAllAMM w vault' rest
       ((processAMMTransaction w vault' sig st)
          \<lparr>processedTxs :=
             insert (signature sig) (processedTxs (processAMMTransaction w vault' sig st))\<rparr>)"

text \<open>\<^verbatim>\<open>!this.lastBCSignature\<close>: the cursor is \<^verbatim>\<open>null\<close> or the empty string.\<close>

definition unset :: "string option \<Rightarrow> bool" where
  "unset s \<longleftrightarrow> s = None \<or> s = Some []"

definition cursor :: "string option \<Rightarrow> string" where
  "cursor s = (case s of None \<Rightarrow> [] | Some x \<Rightarrow> x)"

definition pollVaultTransactions :: "World \<Rightarrow> VaultType \<Rightarrow> string \<Rightarrow> Daemon \<Rightarrow> Daemon" where
  "pollVaultTransactions w vaultType' vault' st =
     (case getSignaturesForAddress w vault' of
        Throws \<Rightarrow> st
      | Returns signatures \<Rightarrow>
          if length signatures = 0 then st
          else if unset (lastBCSignature st) then
            st\<lparr>lastBCSignature := Some (signature (hd signatures))\<rparr>
          else
            let newSigs = collectNew (cursor (lastBCSignature st)) (processedTxs st) signatures
            in if length newSigs = 0 then st
               else (processAll w vaultType' vault' (rev newSigs) st)
                      \<lparr>lastBCSignature := Some (signature (hd signatures))\<rparr>)"

definition pollAMMVaultTransactions :: "World \<Rightarrow> Daemon \<Rightarrow> Daemon" where
  "pollAMMVaultTransactions w st =
     (case tokenInfo st of
        None \<Rightarrow> st
      | Some ti \<Rightarrow>
          (case getSignaturesForAddress w (ti_creatorVaultAMM ti) of
             Throws \<Rightarrow> st
           | Returns signatures \<Rightarrow>
               if length signatures = 0 then st
               else if unset (lastAMMSignature st) then
                 st\<lparr>lastAMMSignature := Some (signature (hd signatures))\<rparr>
               else
                 let newSigs = collectNew (cursor (lastAMMSignature st)) (processedTxs st) signatures
                 in if length newSigs = 0 then st
                    else (processAllAMM w (ti_creatorVaultAMM ti) (rev newSigs) st)
                           \<lparr>lastAMMSignature := Some (signature (hd signatures))\<rparr>))"

text \<open>
  One poll tick.  The migration flag is read again after the bonding-curve vault was
  polled: \<^verbatim>\<open>this.tokenInfo.migrated\<close> of the state then current.
\<close>

definition isMigrated :: "Daemon \<Rightarrow> bool" where
  "isMigrated st = (case tokenInfo st of None \<Rightarrow> False | Some ti \<Rightarrow> ti_migrated ti)"

definition poll :: "World \<Rightarrow> Daemon \<Rightarrow> Daemon" where
  "poll w st =
     (case tokenInfo st of
        None \<Rightarrow> st
      | Some ti \<Rightarrow>
          if \<not> running st then st
          else
            let st1 = (if \<not> ti_migrated ti then checkMigration w st else st);
                st2 = pollVaultTransactions w BC (ti_creatorVaultBC ti) st1
            in if isMigrated st2 then pollAMMVaultTransactions w st2 else st2)"


text \<open>The entries of the daemon's history, none when no history is kept.\<close>

definition entriesOf :: "Daemon \<Rightarrow> HistoryEntry list" where
  "entriesOf st = (case historyLog st of None \<Rightarrow> [] | Some log \<Rightarrow> entries log)"

section \<open>How a step changes the history\<close>

text \<open>
  \<open>appends P st st'\<close>: the history of \<open>st'\<close> is that of \<open>st\<close> followed by entries that
  satisfy \<open>P\<close>.  \<open>oneMore sg vt st st'\<close>: it is that history, or that history followed by
  one entry with signature \<open>sg\<close> and vault type \<open>vt\<close>.
\<close>

definition appends :: "(HistoryEntry \<Rightarrow> bool) \<Rightarrow> Daemon \<Rightarrow> Daemon \<Rightarrow> bool" where
  "appends P st st' \<longleftrightarrow> (\<exists>new. entriesOf st' = entriesOf st @ new \<and> list_all P new)"

definition oneMore :: "string \<Rightarrow> VaultType \<Rightarrow> Daemon \<Rightarrow> Daemon \<Rightarrow> bool" where
  "oneMore sg vt st st' \<longleftrightarrow>
     entriesOf st' = entriesOf st
     \<or> (\<exists>e. entriesOf st' = entriesOf st @ [e] \<and> txSignature e = sg \<and> vaultType e = vt)"


section \<open>The daemon, balance-polling revision\<close>

text \<open>
  The fields of the daemon of the balance-polling revision.  The content of the history
  file is left out in this revision; that a write throws is kept, since the exception
  changes which statements run.
\<close>

record Daemon_bal =
  running_bal :: bool
  tokenInfo_bal :: "TokenInfo_bal option"
  lastBCBalance :: int
  lastAMMBalance :: int
  bcFees_bal :: int
  ammFees_bal :: int
  historyLog_bal :: "HistoryEntry_bal HistoryLog_bal option"
  historyFile_bal :: "string option"

definition saveHistory_bal :: "World \<Rightarrow> Daemon_bal \<Rightarrow> Daemon_bal" where
  "saveHistory_bal w st =
     (case historyLog_bal st of
        None \<Rightarrow> st
      | Some log \<Rightarrow>
          (case historyFile_bal st of
             None \<Rightarrow> st
           | Some path \<Rightarrow>
               if path = [] then st
               else
                 st\<lparr>historyLog_bal := Some
                    (log\<lparr>lastUpdated := isoFormat (now w),
                          totalFees := number_toString (bcFees_bal st + ammFees_bal st),
                          entryCount := int (length (entries log)),
                          latestHash := (if length (entries log) > 0
                                         then hash (last (entries log))
                                         else latestHash log)\<rparr>)\<rparr>))"

definition saveHistoryThrows_bal :: "World \<Rightarrow> Daemon_bal \<Rightarrow> bool" where
  "saveHistoryThrows_bal w st \<longleftrightarrow>
     historyLog_bal st \<noteq> None \<and> historyFile_bal st \<noteq> None \<and> historyFile_bal st \<noteq> Some []
     \<and> writeFileThrows w"

definition checkMigration_bal :: "World \<Rightarrow> Daemon_bal \<Rightarrow> Daemon_bal" where
  "checkMigration_bal w st =
     (case tokenInfo_bal st of
        None \<Rightarrow> st
      | Some ti \<Rightarrow>
          (case getAccountInfo w (ti_bondingCurve ti) of
             Throws \<Rightarrow> st
           | Returns None \<Rightarrow> st
           | Returns (Some data) \<Rightarrow>
               (case deserializeBondingCurve data of
                  None \<Rightarrow> st
                | Some bcData \<Rightarrow>
                    if complete bcData \<and> \<not> ti_migrated ti then
                      let st1 = st\<lparr>tokenInfo_bal := Some (ti\<lparr>ti_migrated := True\<rparr>)\<rparr>
                      in (case historyLog_bal st1 of
                            None \<Rightarrow> st1
                          | Some log \<Rightarrow>
                              saveHistory_bal w
                                (st1\<lparr>historyLog_bal := Some (log\<lparr>migrated := True\<rparr>)\<rparr>))
                    else st)))"

text \<open>
  \<^verbatim>\<open>handleBalanceChange\<close> returns the state and whether it threw (a throw of
  \<^verbatim>\<open>onFeeDetected\<close>, \<^verbatim>\<open>toISOString\<close>, \<^verbatim>\<open>saveHistory\<close> or \<^verbatim>\<open>onHistoryEntry\<close>): \<^verbatim>\<open>pollVault\<close>
  catches the exception and then skips the update of the last balance.
\<close>

definition handleBalanceChange ::
  "World \<Rightarrow> HistoryEventType \<Rightarrow> VaultType \<Rightarrow> string \<Rightarrow> int \<Rightarrow> int \<Rightarrow> int \<Rightarrow> int \<Rightarrow> int
     \<Rightarrow> Daemon_bal \<Rightarrow> Daemon_bal \<times> bool" where
  "handleBalanceChange w eventType' vaultType' vault' delta balanceBefore' balanceAfter' slot'
       timestamp' st =
     (let absDelta = (if delta < 0 then - delta else delta);
          st1 = (if eventType' = FEE then
                   (if vaultType' = BC then st\<lparr>bcFees_bal := bcFees_bal st + absDelta\<rparr>
                    else st\<lparr>ammFees_bal := ammFees_bal st + absDelta\<rparr>)
                 else st)
      in if eventType' = FEE \<and> onFeeDetectedThrows w then (st1, True)
         else
           case historyLog_bal st1 of
             None \<Rightarrow> (st1, False)
           | Some log \<Rightarrow>
               (case createHistoryEntry_bal log eventType' vaultType' vault'
                       (number_toString delta) (number_toString balanceBefore')
                       (number_toString balanceAfter') slot' timestamp' of
                  None \<Rightarrow> (st1, True)
                | Some entry \<Rightarrow>
                    let st2 = st1\<lparr>historyLog_bal := Some (log\<lparr>entries := entries log @ [entry]\<rparr>)\<rparr>
                    in (saveHistory_bal w st2,
                        saveHistoryThrows_bal w st2 \<or> onHistoryEntryThrows w)))"

definition pollVault :: "World \<Rightarrow> VaultType \<Rightarrow> string \<Rightarrow> Daemon_bal \<Rightarrow> Daemon_bal" where
  "pollVault w vaultType' vault' st =
     (case getSlot w of
        Throws \<Rightarrow> st
      | Returns slotInfo \<Rightarrow>
          (case getBalance w vault' of
             Throws \<Rightarrow> st
           | Returns currentBalance \<Rightarrow>
               let lastBalance = (if vaultType' = BC then lastBCBalance st else lastAMMBalance st);
                   delta = currentBalance - lastBalance
               in if delta \<noteq> 0 then
                    (case handleBalanceChange w (if delta > 0 then FEE else CLAIM) vaultType'
                            vault' delta lastBalance currentBalance slotInfo (now w) st of
                       (st1, threw) \<Rightarrow>
                         if threw then st1
                         else if vaultType' = BC then st1\<lparr>lastBCBalance := currentBalance\<rparr>
                         else st1\<lparr>lastAMMBalance := currentBalance\<rparr>)
                  else st))"

definition poll_bal :: "World \<Rightarrow> Daemon_bal \<Rightarrow> Daemon_bal" where
  "poll_bal w st =
     (case tokenInfo_bal st of
        None \<Rightarrow> st
      | Some ti \<Rightarrow>
          if \<not> running_bal st then st
          else
            let st1 = (if \<not> ti_migrated ti then checkMigration_bal w st else st);
                st2 = pollVault w BC (ti_creatorVaultBC ti) st1
            in pollVault w AMM (ti_creatorVaultAMM ti) st2)"

definition isMigrated_bal :: "Daemon_bal \<Rightarrow> bool" where
  "isMigrated_bal st = (case tokenInfo_bal st of None \<Rightarrow> False | Some ti \<Rightarrow> ti_migrated ti)"

definition entriesOf_bal :: "Daemon_bal \<Rightarrow> HistoryEntry_bal list" where
  "entriesOf_bal st = (case historyLog_bal st of None \<Rightarrow> [] | Some log \<Rightarrow> entries log)"

section \<open>Example daemons and worlds\<close>

text \<open>A token that has not migrated, and a running daemon of each revision on a fresh history.\<close>

definition exampleToken :: TokenInfo where
  "exampleToken =
     \<lparr>ti_mint = ''MintAddr'', ti_symbol = ''TOKEN'', ti_bondingCurve = ''CurveAddr'',
      ti_creator = ''CreatorAddr'', ti_creatorVaultBC = ''VaultBC'',
      ti_creatorVaultAMM = ''VaultAMM'', ti_migrated = False, ti_pool = ''PoolAddr''\<rparr>"

definition exampleDaemon_bal :: Daemon_bal where
  "exampleDaemon_bal =
     \<lparr>running_bal = True, tokenInfo_bal = Some (TokenInfo_bal.truncate exampleToken),
      lastBCBalance = 0, lastAMMBalance = 0, bcFees_bal = 0, ammFees_bal = 0,
      historyLog_bal = Some exampleLog_bal, historyFile_bal = Some ''history.json''\<rparr>"

definition exampleDaemon :: Daemon where
  "exampleDaemon =
     \<lparr>running = True, tokenInfo = Some exampleToken, lastBCSignature = Some ''S1'',
      lastAMMSignature = None, processedTxs = {}, bcFees = 0, ammFees = 0,
      historyLog = Some exampleLog, historyFile = Some ''history.json'',
      files = Map.empty\<rparr>"

text \<open>
  A world in which the bonding curve account is not found, 700 lamports rest in the AMM
  vault and none in the other, and no signatures are listed.
\<close>

definition quietWorld :: World where
  "quietWorld =
     \<lparr>now = 1700000000000, getAccountInfo = (\<lambda>a. Returns None), getSlot = Returns 7,
      getBalance = (\<lambda>a. Returns (if a = ''VaultAMM'' then 700 else 0)),
      getSignaturesForAddress = (\<lambda>a. Returns []),
      getTransaction = (\<lambda>s. Returns None),
      writeFileThrows = False, onFeeDetectedThrows = False, onHistoryEntryThrows = False\<rparr>"

text \<open>
  A world that lists the signatures S5, S4, S3, newest first, for every address, and a
  daemon whose two cursors stand at S3.
\<close>

definition cursorWorld :: World where
  "cursorWorld =
     quietWorld\<lparr>getSignaturesForAddress :=
       (\<lambda>a. Returns [\<lparr>signature = ''S5''\<rparr>, \<lparr>signature = ''S4''\<rparr>, \<lparr>signature = ''S3''\<rparr>])\<rparr>"

definition cursorDaemon :: Daemon where
  "cursorDaemon = exampleDaemon\<lparr>lastBCSignature := Some ''S3'', lastAMMSignature := Some ''S3''\<rparr>"

text \<open>
  A transaction that names the mint and raises the native balance of the bonding-curve
  vault from 1000 to 1500; a world that lists S2 (new) and S1 for every address and returns
  that transaction for every signature; and the same world with S2 listed twice.
\<close>

definition feeTx :: TransactionResponse where
  "feeTx =
     \<lparr>meta = Some \<lparr>preBalances = [0, 1000], postBalances = [0, 1500],
                    preTokenBalances = None, postTokenBalances = None,
                    loadedAddresses = None\<rparr>,
      staticAccountKeys = [''MintAddr'', ''VaultBC''], tx_slot = 7,
      blockTime = Some 1700000000\<rparr>"

definition feeWorld :: World where
  "feeWorld =
     quietWorld\<lparr>getSignaturesForAddress :=
                   (\<lambda>a. Returns [\<lparr>signature = ''S2''\<rparr>, \<lparr>signature = ''S1''\<rparr>]),
                 getTransaction := (\<lambda>s. Returns (Some feeTx))\<rparr>"





section \<open>Properties of the runtime functions\<close>

lemma round_constant_ends:
  "round_constant 2 = 0x428a2f98" "round_constant 311 = 0xc67178f2"
  by code_simp+

lemma digit_chars:
  "char_of (48::nat) = CHR ''0''" "char_of (49::nat) = CHR ''1''" "char_of (50::nat) = CHR ''2''"
  "char_of (51::nat) = CHR ''3''" "char_of (52::nat) = CHR ''4''" "char_of (53::nat) = CHR ''5''"
  "char_of (54::nat) = CHR ''6''" "char_of (55::nat) = CHR ''7''" "char_of (56::nat) = CHR ''8''"
  "char_of (57::nat) = CHR ''9''"
  by (simp_all add: char_of_eq_iff)

lemma of_char_digit: "n < 10 \<Longrightarrow> of_char (char_of (48 + n)) = 48 + (n::nat)"
  by simp

lemma digit_not_minus: "n < 10 \<Longrightarrow> char_of (48 + (n::nat)) \<noteq> CHR ''-''"
proof
  assume n: "n < 10" and "char_of (48 + n) = CHR ''-''"
  then have "(of_char (char_of (48 + n)) :: nat) = of_char CHR ''-''" by simp
  with n show False by (simp only: of_char_digit) simp
qed

lemma nat_digits_nonempty: "nat_digits n \<noteq> []"
  by (subst nat_digits.simps) simp

lemma nat_digits_inj: "nat_digits m = nat_digits n \<Longrightarrow> m = n"
proof (induction m arbitrary: n rule: nat_digits.induct)
  case (1 m)
  show ?case
  proof (cases "m < 10")
    case True
    note m = this
    show ?thesis
    proof (cases "n < 10")
      case True
      with m 1(2) show ?thesis
        by (simp add: nat_digits.simps[of m] nat_digits.simps[of n])
    next
      case False
      with m 1(2) nat_digits_nonempty[of "n div 10"] show ?thesis
        by (simp add: nat_digits.simps[of m] nat_digits.simps[of n])
    qed
  next
    case False
    note m = this
    show ?thesis
    proof (cases "n < 10")
      case True
      with m 1(2) nat_digits_nonempty[of "m div 10"] show ?thesis
        by (simp add: nat_digits.simps[of m] nat_digits.simps[of n])
    next
      case False
      with m 1(2) have eq: "nat_digits (m div 10) = nat_digits (n div 10)"
        and d: "(48 + m mod 10) mod 256 = (48 + n mod 10) mod 256"
        by (simp_all add: nat_digits.simps[of m] nat_digits.simps[of n])
      from 1(1)[OF m eq] have q: "m div 10 = n div 10" .
      have "m mod 10 < 10" "n mod 10 < 10" by simp_all
      then have "(48 + m mod 10) mod 256 = 48 + m mod 10" "(48 + n mod 10) mod 256 = 48 + n mod 10"
        by simp_all
      with d have r: "m mod 10 = n mod 10" by linarith
      have "m = 10 * (m div 10) + m mod 10" by simp
      also have "\<dots> = 10 * (n div 10) + n mod 10" by (simp only: q r)
      also have "\<dots> = n" by simp
      finally show ?thesis .
    qed
  qed
qed

lemma nat_digits_no_minus: "CHR ''-'' \<notin> set (nat_digits n)"
proof (induction n rule: nat_digits.induct)
  case (1 n)
  show ?case
  proof (cases "n < 10")
    case True
    with digit_not_minus[of n] show ?thesis by (auto simp add: nat_digits.simps[of n])
  next
    case False
    have "n mod 10 < 10" by simp
    from digit_not_minus[OF this] 1 False show ?thesis by (auto simp add: nat_digits.simps[of n])
  qed
qed

lemma nat_digits_hd: "nat_digits n \<noteq> CHR ''-'' # xs"
proof
  assume "nat_digits n = CHR ''-'' # xs"
  then have "CHR ''-'' \<in> set (nat_digits n)" by simp
  with nat_digits_no_minus show False by blast
qed

lemma nat_digits_hd': "CHR ''-'' # xs \<noteq> nat_digits n"
  using nat_digits_hd[of n xs] by (rule not_sym)

lemma number_toString_inj: "number_toString a = number_toString b \<Longrightarrow> a = b"
proof -
  assume eq: "number_toString a = number_toString b"
  show ?thesis
  proof (cases "a < 0")
    case True
    note a = this
    show ?thesis
    proof (cases "b < 0")
      case True
      with a eq have "nat (- a) = nat (- b)" by (simp add: number_toString_def nat_digits_inj)
      with a True show ?thesis by simp
    next
      case False
      with a eq show ?thesis by (simp add: number_toString_def nat_digits_hd nat_digits_hd')
    qed
  next
    case False
    note a = this
    show ?thesis
    proof (cases "b < 0")
      case True
      with a eq show ?thesis by (simp add: number_toString_def nat_digits_hd nat_digits_hd')
    next
      case False
      with a eq have "nat a = nat b" by (simp add: number_toString_def nat_digits_inj)
      with a False show ?thesis by simp
    qed
  qed
qed

section \<open>Properties of the commitment and of the verifier\<close>

lemma number_toString_eq_iff [simp]: "number_toString a = number_toString b \<longleftrightarrow> a = b"
  using number_toString_inj by blast

lemma eventTypeString_eq_iff [simp]: "eventTypeString a = eventTypeString b \<longleftrightarrow> a = b"
  by (cases a; cases b) simp_all

lemma vaultTypeString_eq_iff [simp]: "vaultTypeString a = vaultTypeString b \<longleftrightarrow> a = b"
  by (cases a; cases b) simp_all

lemma entryData_unfold:
  "entryData e =
     number_toString (sequence e) @ ''|'' @ prevHash e @ ''|'' @ eventTypeString (eventType e) @ ''|''
     @ vaultTypeString (vaultType e) @ ''|'' @ vault e @ ''|'' @ amount e @ ''|''
     @ balanceBefore e @ ''|'' @ balanceAfter e @ ''|'' @ number_toString (slot e) @ ''|''
     @ number_toString (timestamp e) @ ''|'' @ txSignature e"
  by (simp add: entryData_def hashedFields_bal_def)

lemma entryData_bal_unfold:
  "entryData_bal e =
     number_toString (sequence e) @ ''|'' @ prevHash e @ ''|'' @ eventTypeString (eventType e) @ ''|''
     @ vaultTypeString (vaultType e) @ ''|'' @ vault e @ ''|'' @ amount e @ ''|''
     @ balanceBefore e @ ''|'' @ balanceAfter e @ ''|'' @ number_toString (slot e) @ ''|''
     @ number_toString (timestamp e)"
  by (simp add: entryData_bal_def hashedFields_bal_def)

lemma computeEntryHash_ignores [simp]:
  "computeEntryHash (e\<lparr>hash := v\<rparr>) = computeEntryHash e"
  "computeEntryHash (e\<lparr>date := d\<rparr>) = computeEntryHash e"
  by (simp_all add: computeEntryHash_def entryData_unfold)

lemma computeEntryHash_bal_ignores [simp]:
  "computeEntryHash_bal (e\<lparr>hash := v\<rparr>) = computeEntryHash_bal e"
  "computeEntryHash_bal (e\<lparr>date := d\<rparr>) = computeEntryHash_bal e"
  by (simp_all add: computeEntryHash_bal_def entryData_bal_unfold)

lemma mutate_entryData:
  assumes "mutate u e \<noteq> e" "contentUpdate u"
  shows "entryData (mutate u e) \<noteq> entryData e"
  using assms by (cases u) (auto simp: entryData_unfold)

lemma verifyFail_neq_Ok [simp]: "verifyFail i msg \<noteq> verifyOk" "verifyOk \<noteq> verifyFail i msg"
  by (simp_all add: verifyFail_def verifyOk_def)

lemma verifyLoop_find:
  "i \<le> length es \<Longrightarrow>
   verifyLoop h i (expectedPrev es i) (drop i es) =
     (case find (\<lambda>j. entryCheck h es j \<noteq> None) [i..<length es] of
        None \<Rightarrow> verifyOk
      | Some j \<Rightarrow> (case entryCheck h es j of None \<Rightarrow> verifyOk | Some msg \<Rightarrow> verifyFail j msg))"
proof (induction "length es - i" arbitrary: i)
  case 0
  then show ?case by simp
next
  case (Suc n)
  then have lt: "i < length es" by simp
  have d: "drop i es = es ! i # drop (Suc i) es" using lt by (simp add: Cons_nth_drop_Suc)
  have u: "[i..<length es] = i # [Suc i..<length es]" using lt by (simp add: upt_conv_Cons)
  have nxt: "expectedPrev es (Suc i) = hash (es ! i)" by (simp add: expectedPrev_def)
  have ih: "verifyLoop h (Suc i) (expectedPrev es (Suc i)) (drop (Suc i) es) =
     (case find (\<lambda>j. entryCheck h es j \<noteq> None) [Suc i..<length es] of
        None \<Rightarrow> verifyOk
      | Some j \<Rightarrow> (case entryCheck h es j of None \<Rightarrow> verifyOk | Some msg \<Rightarrow> verifyFail j msg))"
    using Suc(1)[of "Suc i"] Suc(2) lt by simp
  show ?case
    unfolding d u using ih by (simp add: entryCheck_def nxt)
qed

lemma verifyLoop_spec: "verifyLoop h 0 GENESIS_HASH es = verifySpec h es"
proof -
  have "verifyLoop h 0 (expectedPrev es 0) (drop 0 es) =
     (case find (\<lambda>j. entryCheck h es j \<noteq> None) [0..<length es] of
        None \<Rightarrow> verifyOk
      | Some j \<Rightarrow> (case entryCheck h es j of None \<Rightarrow> verifyOk | Some msg \<Rightarrow> verifyFail j msg))"
    by (rule verifyLoop_find) simp
  then show ?thesis
    by (auto simp: expectedPrev_def verifySpec_def firstFailure_def split: option.splits)
qed

lemma firstFailure_None_iff:
  "firstFailure h es = None \<longleftrightarrow> (\<forall>i<length es. entryCheck h es i = None)"
proof (cases "find (\<lambda>i. entryCheck h es i \<noteq> None) [0..<length es]")
  case None
  then have "\<forall>i<length es. entryCheck h es i = None"
    by (auto simp: find_None_iff)
  moreover have "firstFailure h es = None"
    unfolding firstFailure_def None by simp
  ultimately show ?thesis by simp
next
  case (Some j)
  then have j: "entryCheck h es j \<noteq> None" "j < length es"
    by (auto simp: find_Some_iff)
  have a: "firstFailure h es \<noteq> None"
    unfolding firstFailure_def Some using j by simp
  have b: "\<not> (\<forall>i<length es. entryCheck h es i = None)"
    using j by auto
  show ?thesis by (simp only: a b)
qed

lemma verifySpec_ok_iff:
  "verifySpec h es = verifyOk \<longleftrightarrow> (\<forall>i<length es. entryCheck h es i = None)"
proof (cases "firstFailure h es")
  case None
  then show ?thesis using firstFailure_None_iff[of h es] by (simp add: verifySpec_def)
next
  case (Some p)
  then show ?thesis using firstFailure_None_iff[of h es]
    by (cases p) (simp add: verifySpec_def)
qed

lemma verifySpec_fail:
  assumes "i < length es" "entryCheck h es i = Some msg" "\<And>j. j < i \<Longrightarrow> entryCheck h es j = None"
  shows "verifySpec h es = verifyFail i msg"
proof -
  have "find (\<lambda>j. entryCheck h es j \<noteq> None) [0..<length es] = Some i"
    using assms by (auto simp: find_Some_iff intro!: exI[of _ i])
  with assms(2) show ?thesis by (simp add: verifySpec_def firstFailure_def)
qed

section \<open>Chains built by appending\<close>

lemma entryCheck_None_iff:
  "entryCheck h es i = None \<longleftrightarrow>
     sequence (es ! i) = int i + 1 \<and> prevHash (es ! i) = expectedPrev es i \<and> h (es ! i) = hash (es ! i)"
  by (simp add: entryCheck_def)

lemma entryCheck_append_old:
  assumes "i < length es"
  shows "entryCheck h (es @ [e]) i = entryCheck h es i"
proof -
  have a: "(es @ [e]) ! i = es ! i" using assms by (simp add: nth_append)
  have "i \<noteq> 0 \<Longrightarrow> (es @ [e]) ! (i - 1) = es ! (i - 1)" using assms by (simp add: nth_append)
  then have b: "expectedPrev (es @ [e]) i = expectedPrev es i" by (simp add: expectedPrev_def)
  show ?thesis unfolding entryCheck_def a b ..
qed

lemma expectedPrev_append_new:
  "expectedPrev (es @ [e]) (length es) = (if length es > 0 then hash (last es) else GENESIS_HASH)"
  by (auto simp: expectedPrev_def nth_append last_conv_nth)

lemma createHistoryEntry_fields:
  assumes "createHistoryEntry log et vt v a bb ba sl ts sig = Some e"
  shows "sequence e = int (length (entries log)) + 1"
    and "prevHash e = (if length (entries log) > 0 then hash (last (entries log)) else GENESIS_HASH)"
    and "computeEntryHash e = hash e"
    and "txSignature e = sig" and "vaultType e = vt" and "eventType e = et"
    and "validTime ts"
proof -
  define p where "p = (if length (entries log) > 0 then hash (last (entries log)) else GENESIS_HASH)"
  define r where "r = \<lparr>sequence = int (length (entries log)) + 1, prevHash = p,
      eventType = et, vaultType = vt, vault = v, amount = a, balanceBefore = bb,
      balanceAfter = ba, slot = sl, timestamp = ts, date = isoFormat ts, hash = [],
      txSignature = sig\<rparr>"
  have eq: "createHistoryEntry log et vt v a bb ba sl ts sig =
      (if validTime ts then Some (r\<lparr>hash := computeEntryHash r\<rparr>) else None)"
    unfolding r_def p_def
    by (cases "validTime ts")
       (simp_all only: createHistoryEntry_def Date_toISOString_def Let_def if_True if_False
          option.case)
  with assms show vt: "validTime ts" by (simp split: if_splits)
  with assms eq have e: "e = r\<lparr>hash := computeEntryHash r\<rparr>" by simp
  show "sequence e = int (length (entries log)) + 1" by (simp add: e r_def)
  show "prevHash e = (if length (entries log) > 0 then hash (last (entries log)) else GENESIS_HASH)"
    by (simp add: e r_def p_def)
  show "txSignature e = sig" "vaultType e = vt" "eventType e = et" by (simp_all add: e r_def)
  show "computeEntryHash e = hash e" by (simp add: e)
qed

lemma createHistoryEntry_bal_fields:
  assumes "createHistoryEntry_bal log et vt v a bb ba sl ts = Some e"
  shows "sequence e = int (length (entries log)) + 1"
    and "prevHash e = (if length (entries log) > 0 then hash (last (entries log)) else GENESIS_HASH)"
    and "computeEntryHash_bal e = hash e"
    and "vaultType e = vt" and "eventType e = et"
    and "validTime ts"
proof -
  define p where "p = (if length (entries log) > 0 then hash (last (entries log)) else GENESIS_HASH)"
  define r where "r = \<lparr>sequence = int (length (entries log)) + 1, prevHash = p,
      eventType = et, vaultType = vt, vault = v, amount = a, balanceBefore = bb,
      balanceAfter = ba, slot = sl, timestamp = ts, date = isoFormat ts, hash = []\<rparr>"
  have eq: "createHistoryEntry_bal log et vt v a bb ba sl ts =
      (if validTime ts then Some (r\<lparr>hash := computeEntryHash_bal r\<rparr>) else None)"
    unfolding r_def p_def
    by (cases "validTime ts")
       (simp_all only: createHistoryEntry_bal_def Date_toISOString_def Let_def if_True if_False
          option.case)
  with assms show vt: "validTime ts" by (simp split: if_splits)
  with assms eq have e: "e = r\<lparr>hash := computeEntryHash_bal r\<rparr>" by simp
  show "sequence e = int (length (entries log)) + 1" by (simp add: e r_def)
  show "prevHash e = (if length (entries log) > 0 then hash (last (entries log)) else GENESIS_HASH)"
    by (simp add: e r_def p_def)
  show "vaultType e = vt" "eventType e = et" by (simp_all add: e r_def)
  show "computeEntryHash_bal e = hash e" by (simp add: e)
qed

lemma createHistoryEntry_check:
  assumes "createHistoryEntry log et vt v a bb ba sl ts sig = Some e"
  shows "entryCheck computeEntryHash (entries log @ [e]) (length (entries log)) = None"
  using createHistoryEntry_fields(1-3)[OF assms]
  by (simp add: entryCheck_None_iff expectedPrev_append_new)

lemma createHistoryEntry_bal_check:
  assumes "createHistoryEntry_bal log et vt v a bb ba sl ts = Some e"
  shows "entryCheck computeEntryHash_bal (entries log @ [e]) (length (entries log)) = None"
  using createHistoryEntry_bal_fields(1-3)[OF assms]
  by (simp add: entryCheck_None_iff expectedPrev_append_new)

lemma createHistoryEntry_Some_iff:
  "(\<exists>e. createHistoryEntry log et vt v a bb ba sl ts sig = Some e) \<longleftrightarrow> validTime ts"
  by (auto simp: createHistoryEntry_def Let_def Date_toISOString_def split: option.splits)

lemma createHistoryEntry_bal_Some_iff:
  "(\<exists>e. createHistoryEntry_bal log et vt v a bb ba sl ts = Some e) \<longleftrightarrow> validTime ts"
  by (auto simp: createHistoryEntry_bal_def Let_def Date_toISOString_def split: option.splits)

lemma chainOk_Nil [simp]: "chainOk h []"
  by (simp add: chainOk_def)

lemma chainOk_snoc:
  "chainOk h es \<Longrightarrow> entryCheck h (es @ [e]) (length es) = None \<Longrightarrow> chainOk h (es @ [e])"
  by (auto simp: chainOk_def less_Suc_eq entryCheck_append_old)

lemma appendEntry_chainOk:
  assumes "chainOk computeEntryHash (entries log)"
  shows "chainOk computeEntryHash (entries (appendEntry log c))"
proof (cases "createHistoryEntry log (c_eventType c) (c_vaultType c) (c_vault c) (c_amount c)
             (c_balanceBefore c) (c_balanceAfter c) (c_slot c) (c_timestamp c) (c_txSignature c)")
  case None
  with assms show ?thesis by (simp add: appendEntry_def)
next
  case (Some e)
  from chainOk_snoc[OF assms createHistoryEntry_check[OF Some]] Some
  show ?thesis by (simp add: appendEntry_def)
qed

lemma appendEntry_bal_chainOk:
  assumes "chainOk computeEntryHash_bal (entries log)"
  shows "chainOk computeEntryHash_bal (entries (appendEntry_bal log c))"
proof (cases "createHistoryEntry_bal log (c_eventType c) (c_vaultType c) (c_vault c) (c_amount c)
             (c_balanceBefore c) (c_balanceAfter c) (c_slot c) (c_timestamp c)")
  case None
  with assms show ?thesis by (simp add: appendEntry_bal_def)
next
  case (Some e)
  from chainOk_snoc[OF assms createHistoryEntry_bal_check[OF Some]] Some
  show ?thesis by (simp add: appendEntry_bal_def)
qed

lemma appendEntry_length:
  "length (entries (appendEntry log c)) =
     length (entries log) + (if validTime (c_timestamp c) then 1 else 0)"
  using createHistoryEntry_Some_iff[of log "c_eventType c" "c_vaultType c" "c_vault c" "c_amount c"
      "c_balanceBefore c" "c_balanceAfter c" "c_slot c" "c_timestamp c" "c_txSignature c"]
  by (auto simp: appendEntry_def split: option.splits)

lemma appendEntry_bal_length:
  "length (entries (appendEntry_bal log c)) =
     length (entries log) + (if validTime (c_timestamp c) then 1 else 0)"
  using createHistoryEntry_bal_Some_iff[of log "c_eventType c" "c_vaultType c" "c_vault c" "c_amount c"
      "c_balanceBefore c" "c_balanceAfter c" "c_slot c" "c_timestamp c"]
  by (auto simp: appendEntry_bal_def split: option.splits)

lemma foldl_appendEntry_chainOk:
  "chainOk computeEntryHash (entries log) \<Longrightarrow>
   chainOk computeEntryHash (entries (foldl appendEntry log cs))"
  by (induction cs arbitrary: log) (simp_all add: appendEntry_chainOk)

lemma foldl_appendEntry_bal_chainOk:
  "chainOk computeEntryHash_bal (entries log) \<Longrightarrow>
   chainOk computeEntryHash_bal (entries (foldl appendEntry_bal log cs))"
  by (induction cs arbitrary: log) (simp_all add: appendEntry_bal_chainOk)

lemma foldl_appendEntry_length:
  "\<forall>c\<in>set cs. validTime (c_timestamp c) \<Longrightarrow>
   length (entries (foldl appendEntry log cs)) = length (entries log) + length cs"
  by (induction cs arbitrary: log) (simp_all add: appendEntry_length)

lemma foldl_appendEntry_bal_length:
  "\<forall>c\<in>set cs. validTime (c_timestamp c) \<Longrightarrow>
   length (entries (foldl appendEntry_bal log cs)) = length (entries log) + length cs"
  by (induction cs arbitrary: log) (simp_all add: appendEntry_bal_length)

lemma chainOk_sequences:
  assumes "chainOk h es"
  shows "map sequence es = map int [1..<Suc (length es)]"
proof (rule nth_equalityI)
  show "length (map sequence es) = length (map int [1..<Suc (length es)])"
    by (simp del: upt_Suc)
next
  fix i assume "i < length (map sequence es)"
  then have i: "i < length es" by simp
  with assms have "sequence (es ! i) = int i + 1"
    by (simp add: chainOk_def entryCheck_None_iff)
  with i show "map sequence es ! i = map int [1..<Suc (length es)] ! i"
    by (simp add: nth_upt del: upt_Suc)
qed

lemma chainOk_prevHashes:
  assumes "chainOk h es"
  shows "map prevHash es = take (length es) (GENESIS_HASH # map hash es)"
proof (rule nth_equalityI)
  show "length (map prevHash es) = length (take (length es) (GENESIS_HASH # map hash es))" by simp
next
  fix i assume "i < length (map prevHash es)"
  then have i: "i < length es" by simp
  with assms have "prevHash (es ! i) = expectedPrev es i"
    by (simp add: chainOk_def entryCheck_None_iff)
  with i show "map prevHash es ! i = take (length es) (GENESIS_HASH # map hash es) ! i"
    by (cases i) (simp_all add: expectedPrev_def)
qed

section \<open>One field of one entry changed\<close>

lemma expectedPrev_update:
  assumes "hash e' = hash (es ! i) \<or> j \<le> i"
  shows "expectedPrev (es[i := e']) j = expectedPrev es j"
proof (cases "j = 0")
  case True
  then show ?thesis by (simp add: expectedPrev_def)
next
  case False
  show ?thesis
  proof (cases "j - 1 = i")
    case True
    with False assms have "hash e' = hash (es ! i)" by auto
    moreover have "i < length es \<or> \<not> i < length es" by simp
    ultimately have "hash ((es[i := e']) ! i) = hash (es ! i)"
      by (cases "i < length es") (simp_all add: list_update_beyond)
    with True False show ?thesis by (simp add: expectedPrev_def)
  next
    case F: False
    then have "(es[i := e']) ! (j - 1) = es ! (j - 1)" by simp
    with False show ?thesis by (simp add: expectedPrev_def)
  qed
qed

lemma entryCheck_update_other:
  assumes "j \<noteq> i" "hash e' = hash (es ! i) \<or> j \<le> i"
  shows "entryCheck h (es[i := e']) j = entryCheck h es j"
proof -
  have a: "(es[i := e']) ! j = es ! j" using assms(1) by simp
  have b: "expectedPrev (es[i := e']) j = expectedPrev es j"
    using assms(2) by (rule expectedPrev_update)
  show ?thesis unfolding entryCheck_def a b ..
qed

lemma entryCheck_update_at:
  assumes "i < length es"
  shows "entryCheck h (es[i := e']) i =
     (if sequence e' \<noteq> int i + 1 then
        Some (''Expected sequence '' @ number_toString (int i + 1) @ '', got ''
              @ number_toString (sequence e'))
      else if prevHash e' \<noteq> expectedPrev es i then Some ''prevHash mismatch''
      else if h e' \<noteq> hash e' then Some ''Hash mismatch''
      else None)"
proof -
  have a: "(es[i := e']) ! i = e'" using assms by simp
  have b: "expectedPrev (es[i := e']) i = expectedPrev es i"
    by (rule expectedPrev_update) simp
  show ?thesis unfolding entryCheck_def a b ..
qed

lemma update_fails:
  assumes ok: "chainOk h es" and i: "i < length es"
    and at: "entryCheck h (es[i := e']) i = Some msg"
  shows "verifySpec h (es[i := e']) = verifyFail i msg"
proof (rule verifySpec_fail)
  show "i < length (es[i := e'])" using i by simp
  show "entryCheck h (es[i := e']) i = Some msg" by (rule at)
  fix j assume j: "j < i"
  then have "entryCheck h (es[i := e']) j = entryCheck h es j"
    by (intro entryCheck_update_other) simp_all
  with ok i j show "entryCheck h (es[i := e']) j = None" by (simp add: chainOk_def)
qed

lemma update_passes:
  assumes ok: "chainOk h es" and i: "i < length es"
    and at: "entryCheck h (es[i := e']) i = None" and hash: "hash e' = hash (es ! i)"
  shows "verifySpec h (es[i := e']) = verifyOk"
proof -
  have "entryCheck h (es[i := e']) j = None" if "j < length es" for j
  proof (cases "j = i")
    case True
    with at show ?thesis by simp
  next
    case False
    then have "entryCheck h (es[i := e']) j = entryCheck h es j"
      using hash by (intro entryCheck_update_other) simp_all
    with ok that show ?thesis by (simp add: chainOk_def)
  qed
  then show ?thesis by (simp add: verifySpec_ok_iff)
qed

lemma mutate_keeps:
  "\<not> (\<exists>v. u = SetSequence v) \<Longrightarrow> sequence (mutate u e) = sequence e"
  "\<not> (\<exists>v. u = SetPrevHash v) \<Longrightarrow> prevHash (mutate u e) = prevHash e"
  "\<not> (\<exists>v. u = SetHash v) \<Longrightarrow> hash (mutate u e) = hash e"
  by (cases u; simp)+

lemma chainOk_at:
  assumes "chainOk h es" "i < length es"
  shows "sequence (es ! i) = int i + 1" "prevHash (es ! i) = expectedPrev es i"
    "h (es ! i) = hash (es ! i)"
  using assms by (simp_all add: chainOk_def entryCheck_None_iff)

lemma mutation_verdict:
  assumes ok: "chainOk computeEntryHash es" and i: "i < length es"
    and neq: "mutate u (es ! i) \<noteq> es ! i"
  shows "verifySpec computeEntryHash (es[i := mutate u (es ! i)]) = mutationVerdict u i (es ! i)"
proof -
  let ?e = "es ! i" and ?e' = "mutate u (es ! i)"
  note at = chainOk_at[OF ok i]
  note chk = entryCheck_update_at[OF i, of computeEntryHash ?e']
  consider (seq) v where "u = SetSequence v" | (prev) v where "u = SetPrevHash v"
    | (hash) v where "u = SetHash v" | (date) v where "u = SetDate v" | (content) "contentUpdate u"
    by (cases u) auto
  then show ?thesis
  proof cases
    case (seq v)
    with neq at have "v \<noteq> int i + 1" by auto
    then have "entryCheck computeEntryHash (es[i := ?e']) i =
        Some (''Expected sequence '' @ number_toString (int i + 1) @ '', got '' @ number_toString v)"
      unfolding chk by (simp add: seq)
    from update_fails[OF ok i this] show ?thesis by (simp add: seq)
  next
    case (prev v)
    with neq at have "v \<noteq> expectedPrev es i" by auto
    then have "entryCheck computeEntryHash (es[i := ?e']) i = Some ''prevHash mismatch''"
      unfolding chk using at by (simp add: prev)
    from update_fails[OF ok i this] show ?thesis by (simp add: prev)
  next
    case (hash v)
    with neq at have "v \<noteq> computeEntryHash ?e" by auto
    then have "entryCheck computeEntryHash (es[i := ?e']) i = Some ''Hash mismatch''"
      unfolding chk using at by (auto simp add: hash)
    from update_fails[OF ok i this] show ?thesis by (simp add: hash)
  next
    case (date v)
    have "entryCheck computeEntryHash (es[i := ?e']) i = None"
      unfolding chk using at by (simp add: date)
    moreover have "hash ?e' = hash ?e" by (simp add: date)
    ultimately have "verifySpec computeEntryHash (es[i := ?e']) = verifyOk"
      by (rule update_passes[OF ok i])
    then show ?thesis by (simp add: date)
  next
    case content
    then have k: "sequence ?e' = sequence ?e" "prevHash ?e' = prevHash ?e" "hash ?e' = hash ?e"
      by (cases u; simp)+
    have d: "entryData ?e' \<noteq> entryData ?e" using neq content by (rule mutate_entryData)
    have v: "mutationVerdict u i ?e =
        (if sha256_collision (entryData ?e') (entryData ?e) then verifyOk
         else verifyFail i ''Hash mismatch'')"
      using content by (cases u) simp_all
    show ?thesis
    proof (cases "sha256_collision (entryData ?e') (entryData ?e)")
      case True
      then have "computeEntryHash ?e' = hash ?e'"
        using at(3) k(3) by (simp add: sha256_collision_def computeEntryHash_def)
      then have "entryCheck computeEntryHash (es[i := ?e']) i = None"
        unfolding chk using at k by simp
      from update_passes[OF ok i this k(3)] True v show ?thesis by simp
    next
      case False
      with d have "computeEntryHash ?e' \<noteq> hash ?e'"
        using at(3) k(3) by (simp add: sha256_collision_def computeEntryHash_def)
      then have "entryCheck computeEntryHash (es[i := ?e']) i = Some ''Hash mismatch''"
        unfolding chk using at k by simp
      from update_fails[OF ok i this] False v show ?thesis by simp
    qed
  qed
qed

lemma verifySpec_Nil [simp]: "verifySpec h [] = verifyOk"
  by (simp add: verifySpec_def firstFailure_def)

lemma verifyHistoryChain_eq_spec:
  "verifyHistoryChain log = verifySpec computeEntryHash (entries log)"
  by (simp add: verifyHistoryChain_def verifyLoop_spec)

lemma verifyHistoryChain_bal_eq_spec:
  "verifyHistoryChain_bal log = verifySpec computeEntryHash_bal (entries log)"
  by (simp add: verifyHistoryChain_bal_def verifyLoop_spec)

lemma isoFormat_example: "isoFormat 1700000000000 = ''2023-11-14T22:13:20.000Z''"
  by code_simp

section \<open>Properties of the signature cursor\<close>

lemma collectNew_filter:
  "collectNew lastSig processed sigs =
     filter (\<lambda>s. signature s \<notin> processed) (takeWhile (\<lambda>s. signature s \<noteq> lastSig) sigs)"
  by (induction sigs) simp_all

lemma pollVaultTransactions_initialized:
  assumes "lastBCSignature st = Some lastSig" "lastSig \<noteq> []"
    and "getSignaturesForAddress w vault' = Returns sigs"
  shows "pollVaultTransactions w vt vault' st =
     (if collectNew lastSig (processedTxs st) sigs = [] then st
      else (processAll w vt vault' (rev (collectNew lastSig (processedTxs st) sigs)) st)
             \<lparr>lastBCSignature := Some (signature (hd sigs))\<rparr>)"
  using assms
  by (cases sigs) (simp_all add: pollVaultTransactions_def unset_def cursor_def Let_def)

lemma pollAMMVaultTransactions_initialized:
  assumes "tokenInfo st = Some ti" "lastAMMSignature st = Some lastSig" "lastSig \<noteq> []"
    and "getSignaturesForAddress w (ti_creatorVaultAMM ti) = Returns sigs"
  shows "pollAMMVaultTransactions w st =
     (if collectNew lastSig (processedTxs st) sigs = [] then st
      else (processAllAMM w (ti_creatorVaultAMM ti) (rev (collectNew lastSig (processedTxs st) sigs)) st)
             \<lparr>lastAMMSignature := Some (signature (hd sigs))\<rparr>)"
  using assms
  by (cases sigs) (simp_all add: pollAMMVaultTransactions_def unset_def cursor_def Let_def)

section \<open>What the steps of a poll preserve\<close>

lemma appends_refl: "appends P st st"
  by (simp add: appends_def)

lemma appends_same: "entriesOf st' = entriesOf st \<Longrightarrow> appends P st st'"
  by (simp add: appends_def)

lemma appends_trans: "appends P a b \<Longrightarrow> appends P b c \<Longrightarrow> appends P a c"
  by (auto simp: appends_def)

lemma saveHistory_fields [simp]:
  "tokenInfo (saveHistory w st) = tokenInfo st"
  "lastBCSignature (saveHistory w st) = lastBCSignature st"
  "lastAMMSignature (saveHistory w st) = lastAMMSignature st"
  "processedTxs (saveHistory w st) = processedTxs st"
  "bcFees (saveHistory w st) = bcFees st"
  "ammFees (saveHistory w st) = ammFees st"
  "running (saveHistory w st) = running st"
  "historyFile (saveHistory w st) = historyFile st"
  by (simp_all add: saveHistory_def Let_def split: option.splits)

lemma saveHistory_entries [simp]: "entriesOf (saveHistory w st) = entriesOf st"
  by (simp add: saveHistory_def entriesOf_def Let_def split: option.splits)

lemma saveHistory_log_None [simp]: "historyLog (saveHistory w st) = None \<longleftrightarrow> historyLog st = None"
  by (simp add: saveHistory_def Let_def split: option.splits)

lemma recordFee_fields [simp]:
  "tokenInfo (recordFee w vt v d pre post tx sg st) = tokenInfo st"
  "lastBCSignature (recordFee w vt v d pre post tx sg st) = lastBCSignature st"
  "lastAMMSignature (recordFee w vt v d pre post tx sg st) = lastAMMSignature st"
  "processedTxs (recordFee w vt v d pre post tx sg st) = processedTxs st"
  "bcFees (recordFee w vt v d pre post tx sg st) = bcFees st"
  "ammFees (recordFee w vt v d pre post tx sg st) = ammFees st"
  "running (recordFee w vt v d pre post tx sg st) = running st"
  "historyFile (recordFee w vt v d pre post tx sg st) = historyFile st"
  by (simp_all add: recordFee_def split: option.splits)

lemma recordFee_entries:
  "entriesOf (recordFee w vt v d pre post tx sg st) = entriesOf st
   \<or> (\<exists>e. entriesOf (recordFee w vt v d pre post tx sg st) = entriesOf st @ [e]
          \<and> txSignature e = sg \<and> vaultType e = vt)"
proof (cases "onFeeDetectedThrows w")
  case True
  then show ?thesis by (simp add: recordFee_def)
next
  case False
  show ?thesis
  proof (cases "historyLog st")
    case None
    with False show ?thesis by (simp add: recordFee_def)
  next
    case (Some log)
    show ?thesis
    proof (cases "createHistoryEntry log FEE vt v (number_toString d) (number_toString pre)
                    (number_toString post) (tx_slot tx)
                    ((case blockTime tx of None \<Rightarrow> 0 | Some t \<Rightarrow> t) * 1000) sg")
      case None
      with False Some show ?thesis by (simp add: recordFee_def)
    next
      case (Some e)
      note e = this
      have "entriesOf (recordFee w vt v d pre post tx sg st)
          = entriesOf (st\<lparr>historyLog := Some (log\<lparr>entries := entries log @ [e]\<rparr>)\<rparr>)"
        using False \<open>historyLog st = Some log\<close> e by (simp add: recordFee_def)
      also have "\<dots> = entriesOf st @ [e]"
        using \<open>historyLog st = Some log\<close> by (simp add: entriesOf_def)
      finally show ?thesis using createHistoryEntry_fields(4,5)[OF e] by simp
    qed
  qed
qed

lemma processTransaction_fields [simp]:
  "tokenInfo (processTransaction w vt v sg st) = tokenInfo st"
  "lastBCSignature (processTransaction w vt v sg st) = lastBCSignature st"
  "lastAMMSignature (processTransaction w vt v sg st) = lastAMMSignature st"
  "processedTxs (processTransaction w vt v sg st) = processedTxs st"
  "ammFees (processTransaction w vt v sg st) = ammFees st"
  "running (processTransaction w vt v sg st) = running st"
  "historyFile (processTransaction w vt v sg st) = historyFile st"
  by (simp_all add: processTransaction_def Let_def split: option.splits rpc.splits)

lemma processAMMTransaction_fields [simp]:
  "tokenInfo (processAMMTransaction w v sg st) = tokenInfo st"
  "lastBCSignature (processAMMTransaction w v sg st) = lastBCSignature st"
  "lastAMMSignature (processAMMTransaction w v sg st) = lastAMMSignature st"
  "processedTxs (processAMMTransaction w v sg st) = processedTxs st"
  "bcFees (processAMMTransaction w v sg st) = bcFees st"
  "running (processAMMTransaction w v sg st) = running st"
  "historyFile (processAMMTransaction w v sg st) = historyFile st"
  by (simp_all add: processAMMTransaction_def Let_def split: option.splits rpc.splits)

lemma entriesOf_update [simp]:
  "entriesOf (st\<lparr>bcFees := x\<rparr>) = entriesOf st"
  "entriesOf (st\<lparr>ammFees := x\<rparr>) = entriesOf st"
  "entriesOf (st\<lparr>processedTxs := p\<rparr>) = entriesOf st"
  "entriesOf (st\<lparr>lastBCSignature := s\<rparr>) = entriesOf st"
  "entriesOf (st\<lparr>lastAMMSignature := s\<rparr>) = entriesOf st"
  "entriesOf (st\<lparr>tokenInfo := t\<rparr>) = entriesOf st"
  by (simp_all add: entriesOf_def)

lemma oneMore_refl [simp]: "oneMore sg vt st st"
  by (simp add: oneMore_def)

lemma oneMore_recordFee [simp]:
  "entriesOf st1 = entriesOf st \<Longrightarrow> oneMore sg vt st (recordFee w vt v d pre post tx sg st1)"
  using recordFee_entries[of w vt v d pre post tx sg st1] by (simp add: oneMore_def)

lemma processTransaction_entries: "oneMore (signature sg) vt st (processTransaction w vt v sg st)"
  by (simp add: processTransaction_def Let_def split: option.splits rpc.splits)

lemma processAMMTransaction_entries:
  "oneMore (signature sg) AMM st (processAMMTransaction w v sg st)"
  by (simp add: processAMMTransaction_def Let_def split: option.splits rpc.splits)

lemma checkMigration_fields [simp]:
  "lastBCSignature (checkMigration w st) = lastBCSignature st"
  "lastAMMSignature (checkMigration w st) = lastAMMSignature st"
  "processedTxs (checkMigration w st) = processedTxs st"
  "bcFees (checkMigration w st) = bcFees st"
  "ammFees (checkMigration w st) = ammFees st"
  "running (checkMigration w st) = running st"
  "historyFile (checkMigration w st) = historyFile st"
  by (simp_all add: checkMigration_def Let_def split: option.splits rpc.splits)

lemma entriesOf_log_update:
  "historyLog st = Some log \<Longrightarrow> entries log' = entries log \<Longrightarrow>
   entriesOf (st\<lparr>historyLog := Some log'\<rparr>) = entriesOf st"
  by (simp add: entriesOf_def)

lemma checkMigration_entries [simp]: "entriesOf (checkMigration w st) = entriesOf st"
  by (simp add: checkMigration_def Let_def entriesOf_log_update split: option.splits rpc.splits)

lemma checkMigration_tokenInfo:
  "tokenInfo st = Some ti \<Longrightarrow>
   tokenInfo (checkMigration w st) = Some ti
   \<or> tokenInfo (checkMigration w st) = Some (ti\<lparr>ti_migrated := True\<rparr>)"
  by (simp add: checkMigration_def Let_def split: option.splits rpc.splits)

lemma list_all_mono': "list_all P xs \<Longrightarrow> (\<And>x. P x \<Longrightarrow> Q x) \<Longrightarrow> list_all Q xs"
  by (auto simp: list_all_iff)

lemma appends_mono:
  assumes "appends P st st'" and "\<And>x. P x \<Longrightarrow> Q x"
  shows "appends Q st st'"
proof -
  from assms(1) obtain new where n: "entriesOf st' = entriesOf st @ new" "list_all P new"
    by (auto simp: appends_def)
  from n(2) assms(2) have "list_all Q new" by (rule list_all_mono')
  with n(1) show ?thesis by (auto simp: appends_def)
qed

lemma oneMore_appends:
  "oneMore sg vt st st' \<Longrightarrow> appends (\<lambda>e. vaultType e = vt \<and> txSignature e = sg) st st'"
  by (auto simp: oneMore_def appends_def)

lemma processAll_fields [simp]:
  "tokenInfo (processAll w vt v sigs st) = tokenInfo st"
  "lastBCSignature (processAll w vt v sigs st) = lastBCSignature st"
  "lastAMMSignature (processAll w vt v sigs st) = lastAMMSignature st"
  "ammFees (processAll w vt v sigs st) = ammFees st"
  "running (processAll w vt v sigs st) = running st"
  "historyFile (processAll w vt v sigs st) = historyFile st"
  by (induction sigs arbitrary: st) simp_all

lemma processAllAMM_fields [simp]:
  "tokenInfo (processAllAMM w v sigs st) = tokenInfo st"
  "lastBCSignature (processAllAMM w v sigs st) = lastBCSignature st"
  "lastAMMSignature (processAllAMM w v sigs st) = lastAMMSignature st"
  "bcFees (processAllAMM w v sigs st) = bcFees st"
  "running (processAllAMM w v sigs st) = running st"
  "historyFile (processAllAMM w v sigs st) = historyFile st"
  by (induction sigs arbitrary: st) simp_all

lemma processAll_processedTxs [simp]:
  "processedTxs (processAll w vt v sigs st) = processedTxs st \<union> signature ` set sigs"
  by (induction sigs arbitrary: st) auto

lemma processAllAMM_processedTxs [simp]:
  "processedTxs (processAllAMM w v sigs st) = processedTxs st \<union> signature ` set sigs"
  by (induction sigs arbitrary: st) auto

lemma processAll_appends:
  "appends (\<lambda>e. vaultType e = vt \<and> txSignature e \<in> signature ` set sigs) st
     (processAll w vt v sigs st)"
proof (induction sigs arbitrary: st)
  case Nil
  show ?case by (simp add: appends_refl)
next
  case (Cons sg rest)
  let ?st1 = "(processTransaction w vt v sg st)
          \<lparr>processedTxs := insert (signature sg) (processedTxs (processTransaction w vt v sg st))\<rparr>"
  have "oneMore (signature sg) vt st ?st1"
    using processTransaction_entries[of sg vt st w v] by (simp add: oneMore_def)
  then have a: "appends (\<lambda>e. vaultType e = vt \<and> txSignature e \<in> signature ` set (sg # rest)) st ?st1"
    by (auto dest!: oneMore_appends elim!: appends_mono)
  have b: "appends (\<lambda>e. vaultType e = vt \<and> txSignature e \<in> signature ` set (sg # rest)) ?st1
      (processAll w vt v rest ?st1)"
    using Cons.IH[of ?st1] by (auto elim!: appends_mono)
  from appends_trans[OF a b] show ?case by simp
qed

lemma processAllAMM_appends:
  "appends (\<lambda>e. vaultType e = AMM \<and> txSignature e \<in> signature ` set sigs) st
     (processAllAMM w v sigs st)"
proof (induction sigs arbitrary: st)
  case Nil
  show ?case by (simp add: appends_refl)
next
  case (Cons sg rest)
  let ?st1 = "(processAMMTransaction w v sg st)
          \<lparr>processedTxs := insert (signature sg) (processedTxs (processAMMTransaction w v sg st))\<rparr>"
  have "oneMore (signature sg) AMM st ?st1"
    using processAMMTransaction_entries[of sg st w v] by (simp add: oneMore_def)
  then have a: "appends (\<lambda>e. vaultType e = AMM \<and> txSignature e \<in> signature ` set (sg # rest)) st ?st1"
    by (auto dest!: oneMore_appends elim!: appends_mono)
  have b: "appends (\<lambda>e. vaultType e = AMM \<and> txSignature e \<in> signature ` set (sg # rest)) ?st1
      (processAllAMM w v rest ?st1)"
    using Cons.IH[of ?st1] by (auto elim!: appends_mono)
  from appends_trans[OF a b] show ?case by simp
qed

lemma pollVaultTransactions_fields [simp]:
  "tokenInfo (pollVaultTransactions w vt v st) = tokenInfo st"
  "lastAMMSignature (pollVaultTransactions w vt v st) = lastAMMSignature st"
  "ammFees (pollVaultTransactions w vt v st) = ammFees st"
  "running (pollVaultTransactions w vt v st) = running st"
  "historyFile (pollVaultTransactions w vt v st) = historyFile st"
  by (simp_all add: pollVaultTransactions_def Let_def split: rpc.splits)

lemma pollAMMVaultTransactions_fields [simp]:
  "tokenInfo (pollAMMVaultTransactions w st) = tokenInfo st"
  "lastBCSignature (pollAMMVaultTransactions w st) = lastBCSignature st"
  "bcFees (pollAMMVaultTransactions w st) = bcFees st"
  "running (pollAMMVaultTransactions w st) = running st"
  "historyFile (pollAMMVaultTransactions w st) = historyFile st"
  by (simp_all add: pollAMMVaultTransactions_def Let_def split: rpc.splits option.splits)

lemma pollVaultTransactions_appends:
  "appends (\<lambda>e. vaultType e = vt) st (pollVaultTransactions w vt v st)"
proof -
  have "pollVaultTransactions w vt v st = st
     \<or> (\<exists>x. pollVaultTransactions w vt v st = st\<lparr>lastBCSignature := x\<rparr>)
     \<or> (\<exists>sigs x. pollVaultTransactions w vt v st = (processAll w vt v sigs st)\<lparr>lastBCSignature := x\<rparr>)"
    by (auto simp: pollVaultTransactions_def Let_def split: rpc.splits)
  then show ?thesis
  proof (elim disjE exE)
    fix sigs x
    assume "pollVaultTransactions w vt v st = (processAll w vt v sigs st)\<lparr>lastBCSignature := x\<rparr>"
    with processAll_appends[of vt sigs st w v] show ?thesis
      by (auto simp: appends_def elim: list_all_mono')
  qed (simp_all add: appends_def)
qed

lemma poll_not_migrated:
  assumes "\<not> isMigrated (poll w st)"
  shows "lastAMMSignature (poll w st) = lastAMMSignature st \<and> ammFees (poll w st) = ammFees st
     \<and> appends (\<lambda>e. vaultType e = BC) st (poll w st)"
proof (cases "tokenInfo st")
  case None
  then show ?thesis by (simp add: poll_def appends_refl)
next
  case (Some ti)
  show ?thesis
  proof (cases "running st")
    case False
    with Some show ?thesis by (simp add: poll_def appends_refl)
  next
    case True
    define st1 where "st1 = (if \<not> ti_migrated ti then checkMigration w st else st)"
    define st2 where "st2 = pollVaultTransactions w BC (ti_creatorVaultBC ti) st1"
    have p: "poll w st = (if isMigrated st2 then pollAMMVaultTransactions w st2 else st2)"
      using Some True by (simp add: poll_def st1_def st2_def Let_def)
    have "isMigrated (pollAMMVaultTransactions w st2) = isMigrated st2"
      by (simp add: isMigrated_def)
    with assms p have n: "\<not> isMigrated st2" and e: "poll w st = st2"
      by (auto split: if_splits)
    have 1: "lastAMMSignature st1 = lastAMMSignature st" "ammFees st1 = ammFees st"
      "entriesOf st1 = entriesOf st"
      by (simp_all add: st1_def)
    have "appends (\<lambda>e. vaultType e = BC) st1 st2"
      unfolding st2_def by (rule pollVaultTransactions_appends)
    with 1 have "appends (\<lambda>e. vaultType e = BC) st st2" by (simp add: appends_def)
    with 1 show ?thesis by (simp add: e st2_def)
  qed
qed

lemma poll_isMigrated_mono: "isMigrated st \<Longrightarrow> isMigrated (poll w st)"
  by (auto simp: poll_def isMigrated_def Let_def split: option.splits)

section \<open>Signatures of the appended entries\<close>













section \<open>The history file read back\<close>


lemma asHistoryEntry_toJSON [simp]: "asHistoryEntry (historyEntryToJSON e) = Some e"
  by (cases e; cases "eventType e"; cases "vaultType e")
     (simp_all add: asHistoryEntry_def historyEntryToJSON_def jsonNumber_def jsonString_def
        eventTypeOfString_def vaultTypeOfString_def)

lemma those_asHistoryEntry [simp]:
  "those (map (asHistoryEntry \<circ> historyEntryToJSON) es) = Some es"
  by (induction es) simp_all

lemma asHistoryLog_toJSON [simp]: "asHistoryLog (historyLogToJSON log) = Some log"
  by (cases log)
     (simp add: asHistoryLog_def historyLogToJSON_def jsonNumber_def jsonString_def jsonBool_def)








section \<open>The claims about the commitment, the verifier and appending\<close>

text \<open>
  Claim C1, as the code has it.  A history built by appending candidate events to an empty
  log verifies as valid.  After one field of entry \<open>i\<close> of such a history is changed to a
  different value, \<^verbatim>\<open>verifyHistoryChain\<close> answers as \<open>mutationVerdict\<close> says: invalid at
  index \<open>i\<close> when the field is \<^verbatim>\<open>sequence\<close>, \<^verbatim>\<open>prevHash\<close> or \<^verbatim>\<open>hash\<close>; invalid at index \<open>i\<close>
  with a hash mismatch when the field is one of the other hashed fields, unless the changed
  entry is a SHA-256 collision with the original one; and still valid when the field is
  \<^verbatim>\<open>date\<close>, which the hash does not cover.
\<close>

theorem honest_chain_valid_and_mutation_verdict:
  assumes "entries log0 = []"
  shows "verifyHistoryChain (foldl appendEntry log0 cs) = \<lparr>valid = True, entryIndex = None, error = None\<rparr>
     \<and> (i < length (entries (foldl appendEntry log0 cs))
          \<and> mutate u (entries (foldl appendEntry log0 cs) ! i) \<noteq> entries (foldl appendEntry log0 cs) ! i
        \<longrightarrow> verifyHistoryChain ((foldl appendEntry log0 cs)
               \<lparr>entries := (entries (foldl appendEntry log0 cs))
                              [i := mutate u (entries (foldl appendEntry log0 cs) ! i)]\<rparr>)
            = mutationVerdict u i (entries (foldl appendEntry log0 cs) ! i))"
proof -
  have ok: "chainOk computeEntryHash (entries (foldl appendEntry log0 cs))"
    by (rule foldl_appendEntry_chainOk) (simp add: assms)
  then have "verifyHistoryChain (foldl appendEntry log0 cs) = verifyOk"
    by (simp add: verifyHistoryChain_eq_spec verifySpec_ok_iff chainOk_def)
  then show ?thesis
    using mutation_verdict[OF ok, of i u]
    by (simp add: verifyHistoryChain_eq_spec verifyOk_def)
qed

text \<open>
  Claim C1, an instance: two fee events appended to a fresh log, then the amount of the
  second entry changed.
\<close>

theorem honest_chain_valid_and_mutation_verdict_witness:
  "entries exampleLog = []
   \<and> 1 < length (entries (foldl appendEntry exampleLog [fee1, fee2]))
   \<and> mutate (SetAmount ''999'') (entries (foldl appendEntry exampleLog [fee1, fee2]) ! 1)
       \<noteq> entries (foldl appendEntry exampleLog [fee1, fee2]) ! 1
   \<and> verifyHistoryChain (foldl appendEntry exampleLog [fee1, fee2])
       = \<lparr>valid = True, entryIndex = None, error = None\<rparr>
   \<and> verifyHistoryChain ((foldl appendEntry exampleLog [fee1, fee2])
        \<lparr>entries := (entries (foldl appendEntry exampleLog [fee1, fee2]))
            [1 := mutate (SetAmount ''999'') (entries (foldl appendEntry exampleLog [fee1, fee2]) ! 1)]\<rparr>)
       = mutationVerdict (SetAmount ''999'') 1 (entries (foldl appendEntry exampleLog [fee1, fee2]) ! 1)"
proof -
  have h: "entries exampleLog = []" by (simp add: exampleLog_def)
  have v: "\<forall>c\<in>set [fee1, fee2]. validTime (c_timestamp c)"
    by (simp add: fee1_def fee2_def validTime_def)
  have l: "length (entries (foldl appendEntry exampleLog [fee1, fee2])) = 2"
    using foldl_appendEntry_length[OF v, of exampleLog] h by simp
  have a: "amount (entries (foldl appendEntry exampleLog [fee1, fee2]) ! 1) = ''20''"
    by (simp add: appendEntry_def createHistoryEntry_def Date_toISOString_def validTime_def
          fee1_def fee2_def exampleLog_def Let_def)
  have m: "mutate (SetAmount ''999'') (entries (foldl appendEntry exampleLog [fee1, fee2]) ! 1)
       \<noteq> entries (foldl appendEntry exampleLog [fee1, fee2]) ! 1"
  proof
    assume "mutate (SetAmount ''999'') (entries (foldl appendEntry exampleLog [fee1, fee2]) ! 1)
       = entries (foldl appendEntry exampleLog [fee1, fee2]) ! 1"
    then have "amount (mutate (SetAmount ''999'') (entries (foldl appendEntry exampleLog [fee1, fee2]) ! 1))
       = amount (entries (foldl appendEntry exampleLog [fee1, fee2]) ! 1)" by (rule arg_cong)
    with a show False by simp
  qed
  from honest_chain_valid_and_mutation_verdict[OF h, of "[fee1, fee2]" 1 "SetAmount ''999''"] h l m
  show ?thesis by (simp del: foldl.simps mutate.simps mutationVerdict.simps)
qed

text \<open>
  Claim C1 as stated fails: the \<^verbatim>\<open>date\<close> of the only entry of an honestly built history is
  changed to a different value, and the history still verifies as valid.
\<close>

theorem date_mutation_counterexample:
  "date (entries (appendEntry exampleLog fee1) ! 0) = ''2023-11-14T22:13:20.000Z''
   \<and> mutate (SetDate ''2000-01-01T00:00:00.000Z'') (entries (appendEntry exampleLog fee1) ! 0)
       \<noteq> entries (appendEntry exampleLog fee1) ! 0
   \<and> verifyHistoryChain ((appendEntry exampleLog fee1)
        \<lparr>entries := (entries (appendEntry exampleLog fee1))
            [0 := mutate (SetDate ''2000-01-01T00:00:00.000Z'') (entries (appendEntry exampleLog fee1) ! 0)]\<rparr>)
       = \<lparr>valid = True, entryIndex = None, error = None\<rparr>"
proof -
  have h: "entries exampleLog = []" by (simp add: exampleLog_def)
  have d: "date (entries (appendEntry exampleLog fee1) ! 0) = ''2023-11-14T22:13:20.000Z''"
    by (simp add: appendEntry_def createHistoryEntry_def Date_toISOString_def validTime_def
          fee1_def exampleLog_def Let_def isoFormat_example)
  have l: "length (entries (appendEntry exampleLog fee1)) = 1"
    by (simp add: appendEntry_length h fee1_def validTime_def)
  have ok: "chainOk computeEntryHash (entries (appendEntry exampleLog fee1))"
    by (rule appendEntry_chainOk) (simp add: h)
  have m: "mutate (SetDate ''2000-01-01T00:00:00.000Z'') (entries (appendEntry exampleLog fee1) ! 0)
       \<noteq> entries (appendEntry exampleLog fee1) ! 0"
  proof
    assume "mutate (SetDate ''2000-01-01T00:00:00.000Z'') (entries (appendEntry exampleLog fee1) ! 0)
       = entries (appendEntry exampleLog fee1) ! 0"
    then have "date (mutate (SetDate ''2000-01-01T00:00:00.000Z'') (entries (appendEntry exampleLog fee1) ! 0))
       = date (entries (appendEntry exampleLog fee1) ! 0)" by (rule arg_cong)
    with d show False by simp
  qed
  have "verifySpec computeEntryHash ((entries (appendEntry exampleLog fee1))
            [0 := mutate (SetDate ''2000-01-01T00:00:00.000Z'') (entries (appendEntry exampleLog fee1) ! 0)])
        = verifyOk"
    using mutation_verdict[OF ok _ m] l by simp
  with d m show ?thesis
    by (simp add: verifyHistoryChain_eq_spec verifyOk_def del: mutate.simps)
qed

text \<open>
  Claim C3.  \<^verbatim>\<open>verifyHistoryChain\<close> returns what the three checks say, in both revisions:
  the entries are visited by increasing index, entry \<open>i\<close> is checked for its sequence number
  \<open>i + 1\<close>, then for its link to the hash of entry \<open>i - 1\<close> (the genesis constant at index
  0), then for its recomputed hash; the result is invalid at the first entry that fails a
  check, with the message of the first check it fails, and valid when no entry fails.  A log
  without entries is valid.
\<close>

theorem verify_three_checks:
  "verifyHistoryChain log = verifySpec computeEntryHash (entries log)
   \<and> verifyHistoryChain_bal blog = verifySpec computeEntryHash_bal (entries blog)
   \<and> verifyHistoryChain (log\<lparr>entries := []\<rparr>) = \<lparr>valid = True, entryIndex = None, error = None\<rparr>
   \<and> verifyHistoryChain_bal (blog\<lparr>entries := []\<rparr>) = \<lparr>valid = True, entryIndex = None, error = None\<rparr>"
  by (simp add: verifyHistoryChain_eq_spec verifyHistoryChain_bal_eq_spec verifySpec_ok_iff
        verifyOk_def[symmetric])

text \<open>
  Claim C10.  The result of verification depends on the entries only: two logs with the
  same entries get the same result, and changing the identity and summary fields of a log
  (among them \<^verbatim>\<open>totalFees\<close>, \<^verbatim>\<open>entryCount\<close>, \<^verbatim>\<open>latestHash\<close>, \<^verbatim>\<open>migrated\<close>) does not change it.
\<close>

theorem verify_reads_entries_only:
  assumes "entries log' = entries log" and "entries blog' = entries blog"
  shows "verifyHistoryChain log' = verifyHistoryChain log
     \<and> verifyHistoryChain_bal blog' = verifyHistoryChain_bal blog
     \<and> verifyHistoryChain (log\<lparr>version := v, mint := m, symbol := s, bondingCurve := b,
          creator := c, creatorVaultBC := vb, creatorVaultAMM := va, pool := p, migrated := mg,
          startedAt := sa, lastUpdated := lu, totalFees := tf, entryCount := ec,
          latestHash := lh\<rparr>) = verifyHistoryChain log"
  using assms by (simp add: verifyHistoryChain_def verifyHistoryChain_bal_def)

text \<open>Claim C10, an instance: the summary fields of a fresh log overwritten.\<close>

theorem verify_reads_entries_only_witness:
  "entries (exampleLog\<lparr>totalFees := ''999'', entryCount := 40, latestHash := ''00'', migrated := True\<rparr>)
     = entries exampleLog
   \<and> entries (exampleLog_bal\<lparr>totalFees := ''999'', symbol := ''OTHER''\<rparr>) = entries exampleLog_bal
   \<and> verifyHistoryChain
         (exampleLog\<lparr>totalFees := ''999'', entryCount := 40, latestHash := ''00'', migrated := True\<rparr>)
       = verifyHistoryChain exampleLog
   \<and> verifyHistoryChain_bal (exampleLog_bal\<lparr>totalFees := ''999'', symbol := ''OTHER''\<rparr>)
       = verifyHistoryChain_bal exampleLog_bal"
  using verify_reads_entries_only[of
      "exampleLog\<lparr>totalFees := ''999'', entryCount := 40, latestHash := ''00'', migrated := True\<rparr>"
      exampleLog "exampleLog_bal\<lparr>totalFees := ''999'', symbol := ''OTHER''\<rparr>" exampleLog_bal]
  by simp

text \<open>
  Claim C2, as the code has it.  In the transaction-sourced revision the commitment is the
  SHA-256 hex digest of the eleven fields sequence, prevHash, eventType, vaultType, vault,
  amount, balanceBefore, balanceAfter, slot, timestamp, txSignature joined by \<open>|\<close> in that
  order, and an empty signature leaves its separator in the hashed string.  In the
  balance-polling revision the commitment is the digest of the first ten fields joined by
  \<open>|\<close>, with no place for a signature.
\<close>

theorem commitment_fields:
  "computeEntryHash e =
     sha256_hex (join ''|''
       [number_toString (sequence e), prevHash e, eventTypeString (eventType e),
        vaultTypeString (vaultType e), vault e, amount e, balanceBefore e, balanceAfter e,
        number_toString (slot e), number_toString (timestamp e), txSignature e])
   \<and> entryData (e\<lparr>txSignature := ''''\<rparr>) = entryData_bal e @ ''|''
   \<and> computeEntryHash_bal b =
     sha256_hex (join ''|''
       [number_toString (sequence b), prevHash b, eventTypeString (eventType b),
        vaultTypeString (vaultType b), vault b, amount b, balanceBefore b, balanceAfter b,
        number_toString (slot b), number_toString (timestamp b)])"
  by (simp add: computeEntryHash_def computeEntryHash_bal_def entryData_def entryData_bal_def
        hashedFields_bal_def)

text \<open>
  Claim C2 as stated fails in the balance-polling revision: the hashed string of an entry
  ends after the timestamp, and is not the eleven-field string with an empty last field.
\<close>

theorem commitment_placeholder_counterexample:
  "entryData_bal exampleEntry_bal =
     ''1|a1b2c3d4e5f6789012345678901234567890abcdef1234567890abcdef123456|FEE|BC|VaultBC|500|1000|1500|7|1700000000000''
   \<and> join ''|'' (hashedFields_bal exampleEntry_bal @ [''''])  =
     ''1|a1b2c3d4e5f6789012345678901234567890abcdef1234567890abcdef123456|FEE|BC|VaultBC|500|1000|1500|7|1700000000000|''
   \<and> entryData_bal exampleEntry_bal \<noteq> join ''|'' (hashedFields_bal exampleEntry_bal @ [''''])"
  by (simp add: entryData_bal_def hashedFields_bal_def exampleEntry_bal_def GENESIS_HASH_def
        number_toString_def nat_digits.simps digit_chars)

text \<open>
  Claim C4.  After \<open>n\<close> candidate events are appended one at a time to a log without
  entries (each with a timestamp that is a valid date, so that each append succeeds), the
  sequence fields are 1, ..., \<open>n\<close>, the first \<^verbatim>\<open>prevHash\<close> is \<open>GENESIS_HASH\<close> and every later
  \<^verbatim>\<open>prevHash\<close> is the hash of the entry before it; in both revisions.
\<close>

theorem append_sequence_and_linkage:
  assumes "entries log = []" and "\<forall>c\<in>set cs. validTime (c_timestamp c)"
    and "entries blog = []" and "\<forall>c\<in>set bcs. validTime (c_timestamp c)"
  shows "map sequence (entries (foldl appendEntry log cs)) = map int [1..<Suc (length cs)]
     \<and> map prevHash (entries (foldl appendEntry log cs))
         = take (length cs) (GENESIS_HASH # map hash (entries (foldl appendEntry log cs)))
     \<and> map sequence (entries (foldl appendEntry_bal blog bcs)) = map int [1..<Suc (length bcs)]
     \<and> map prevHash (entries (foldl appendEntry_bal blog bcs))
         = take (length bcs) (GENESIS_HASH # map hash (entries (foldl appendEntry_bal blog bcs)))"
proof -
  have "chainOk computeEntryHash (entries (foldl appendEntry log cs))"
    by (rule foldl_appendEntry_chainOk) (simp add: assms(1))
  moreover have "length (entries (foldl appendEntry log cs)) = length cs"
    using foldl_appendEntry_length[OF assms(2), of log] assms(1) by simp
  moreover have "chainOk computeEntryHash_bal (entries (foldl appendEntry_bal blog bcs))"
    by (rule foldl_appendEntry_bal_chainOk) (simp add: assms(3))
  moreover have "length (entries (foldl appendEntry_bal blog bcs)) = length bcs"
    using foldl_appendEntry_bal_length[OF assms(4), of blog] assms(3) by simp
  ultimately show ?thesis
    using chainOk_sequences[of computeEntryHash "entries (foldl appendEntry log cs)"]
      chainOk_prevHashes[of computeEntryHash "entries (foldl appendEntry log cs)"]
      chainOk_sequences[of computeEntryHash_bal "entries (foldl appendEntry_bal blog bcs)"]
      chainOk_prevHashes[of computeEntryHash_bal "entries (foldl appendEntry_bal blog bcs)"]
    by (simp del: upt_Suc)
qed

text \<open>Claim C4, an instance: two fee events appended to a fresh log.\<close>

theorem append_sequence_and_linkage_witness:
  "entries exampleLog = [] \<and> validTime (c_timestamp fee1) \<and> validTime (c_timestamp fee2)
   \<and> entries exampleLog_bal = []
   \<and> map sequence (entries (foldl appendEntry exampleLog [fee1, fee2])) = [1, 2]
   \<and> map prevHash (entries (foldl appendEntry exampleLog [fee1, fee2]))
       = take 2 (GENESIS_HASH # map hash (entries (foldl appendEntry exampleLog [fee1, fee2])))
   \<and> map sequence (entries (foldl appendEntry_bal exampleLog_bal [fee1, fee2])) = [1, 2]
   \<and> map prevHash (entries (foldl appendEntry_bal exampleLog_bal [fee1, fee2]))
       = take 2 (GENESIS_HASH # map hash (entries (foldl appendEntry_bal exampleLog_bal [fee1, fee2])))"
proof -
  have h: "entries exampleLog = []" "\<forall>c\<in>set [fee1, fee2]. validTime (c_timestamp c)"
    "entries exampleLog_bal = []"
    by (simp_all add: exampleLog_def exampleLog_bal_def fee1_def fee2_def validTime_def)
  have u: "map int [1..<Suc (length [fee1, fee2])] = [1, 2]" by (simp add: upt_rec)
  from append_sequence_and_linkage[OF h(1) h(2) h(3) h(2)] h u show ?thesis
    by (simp del: upt_Suc foldl.simps)
qed

section \<open>The claims about the poll\<close>

text \<open>
  Claim C6.  Each pipeline has a cursor of its own, and the statement is made for each
  apart, with a state, a world and a list of its own.  With its cursor initialized (a last
  seen signature that is set), a poll of the vault processes exactly the listed signatures
  that stand before the first occurrence of the last seen signature and are not in the
  processed set, oldest first, whatever the cursor of the other pipeline holds.  In
  particular the list S5, S4, S3 with the cursor at S3 (and S4, S5 not yet processed)
  yields S4, then S5, and the cursor is S5 afterwards.
\<close>

theorem cursor_yields_new_oldest_first:
  "(lastBCSignature st = Some lastSig \<and> lastSig \<noteq> []
      \<and> getSignaturesForAddress w v = Returns sigs
      \<and> yielded = rev (filter (\<lambda>s. signature s \<notin> processedTxs st)
                          (takeWhile (\<lambda>s. signature s \<noteq> lastSig) sigs))
    \<longrightarrow> rev (collectNew lastSig (processedTxs st) sigs) = yielded
        \<and> pollVaultTransactions w vt v st =
            (if yielded = [] then st
             else (processAll w vt v yielded st)\<lparr>lastBCSignature := Some (signature (hd sigs))\<rparr>)
        \<and> (sigs = [s5, s4, s3] \<and> lastSig = signature s3 \<and> signature s4 \<noteq> signature s3
              \<and> signature s5 \<noteq> signature s3 \<and> signature s4 \<notin> processedTxs st
              \<and> signature s5 \<notin> processedTxs st
            \<longrightarrow> yielded = [s4, s5]
                \<and> lastBCSignature (pollVaultTransactions w vt v st) = Some (signature s5)))
   \<and> (tokenInfo ast = Some ti \<and> lastAMMSignature ast = Some alastSig \<and> alastSig \<noteq> []
      \<and> getSignaturesForAddress aw (ti_creatorVaultAMM ti) = Returns asigs
      \<and> ayielded = rev (filter (\<lambda>s. signature s \<notin> processedTxs ast)
                           (takeWhile (\<lambda>s. signature s \<noteq> alastSig) asigs))
    \<longrightarrow> rev (collectNew alastSig (processedTxs ast) asigs) = ayielded
        \<and> pollAMMVaultTransactions aw ast =
            (if ayielded = [] then ast
             else (processAllAMM aw (ti_creatorVaultAMM ti) ayielded ast)
                    \<lparr>lastAMMSignature := Some (signature (hd asigs))\<rparr>)
        \<and> (asigs = [a5, a4, a3] \<and> alastSig = signature a3 \<and> signature a4 \<noteq> signature a3
              \<and> signature a5 \<noteq> signature a3 \<and> signature a4 \<notin> processedTxs ast
              \<and> signature a5 \<notin> processedTxs ast
            \<longrightarrow> ayielded = [a4, a5]
                \<and> lastAMMSignature (pollAMMVaultTransactions aw ast) = Some (signature a5)))"
proof (intro conjI impI; elim conjE)
  assume h: "lastBCSignature st = Some lastSig" "lastSig \<noteq> []"
    "getSignaturesForAddress w v = Returns sigs"
    "yielded = rev (filter (\<lambda>s. signature s \<notin> processedTxs st)
                          (takeWhile (\<lambda>s. signature s \<noteq> lastSig) sigs))"
  show y: "rev (collectNew lastSig (processedTxs st) sigs) = yielded"
    by (simp add: collectNew_filter h(4))
  have e: "collectNew lastSig (processedTxs st) sigs = [] \<longleftrightarrow> yielded = []"
    using y by (metis rev_is_Nil_conv)
  show p: "pollVaultTransactions w vt v st =
            (if yielded = [] then st
             else (processAll w vt v yielded st)\<lparr>lastBCSignature := Some (signature (hd sigs))\<rparr>)"
    using pollVaultTransactions_initialized[OF h(1,2,3), of vt] by (simp add: y e)
  assume x: "sigs = [s5, s4, s3]" "lastSig = signature s3" "signature s4 \<noteq> signature s3"
    "signature s5 \<noteq> signature s3" "signature s4 \<notin> processedTxs st"
    "signature s5 \<notin> processedTxs st"
  show z: "yielded = [s4, s5]" using x by (simp add: h(4))
  show "lastBCSignature (pollVaultTransactions w vt v st) = Some (signature s5)"
    using x(1) z by (simp add: p)
next
  assume h: "tokenInfo ast = Some ti" "lastAMMSignature ast = Some alastSig" "alastSig \<noteq> []"
    "getSignaturesForAddress aw (ti_creatorVaultAMM ti) = Returns asigs"
    "ayielded = rev (filter (\<lambda>s. signature s \<notin> processedTxs ast)
                           (takeWhile (\<lambda>s. signature s \<noteq> alastSig) asigs))"
  show y: "rev (collectNew alastSig (processedTxs ast) asigs) = ayielded"
    by (simp add: collectNew_filter h(5))
  have e: "collectNew alastSig (processedTxs ast) asigs = [] \<longleftrightarrow> ayielded = []"
    using y by (metis rev_is_Nil_conv)
  show p: "pollAMMVaultTransactions aw ast =
            (if ayielded = [] then ast
             else (processAllAMM aw (ti_creatorVaultAMM ti) ayielded ast)
                    \<lparr>lastAMMSignature := Some (signature (hd asigs))\<rparr>)"
    using pollAMMVaultTransactions_initialized[OF h(1,2,3,4)] by (simp add: y e)
  assume x: "asigs = [a5, a4, a3]" "alastSig = signature a3" "signature a4 \<noteq> signature a3"
    "signature a5 \<noteq> signature a3" "signature a4 \<notin> processedTxs ast"
    "signature a5 \<notin> processedTxs ast"
  show z: "ayielded = [a4, a5]" using x by (simp add: h(5))
  show "lastAMMSignature (pollAMMVaultTransactions aw ast) = Some (signature a5)"
    using x(1) z by (simp add: p)
qed

text \<open>
  Claim C6, an instance: the list S5, S4, S3; the bonding-curve pipeline with its cursor at
  S3 and the AMM cursor unset, and the AMM pipeline with its cursor at S3 and the
  bonding-curve cursor unset.
\<close>

theorem cursor_yields_new_oldest_first_witness:
  "lastBCSignature (cursorDaemon\<lparr>lastAMMSignature := None\<rparr>) = Some ''S3''
   \<and> lastAMMSignature (cursorDaemon\<lparr>lastAMMSignature := None\<rparr>) = None
   \<and> getSignaturesForAddress cursorWorld ''VaultBC''
       = Returns [\<lparr>signature = ''S5''\<rparr>, \<lparr>signature = ''S4''\<rparr>, \<lparr>signature = ''S3''\<rparr>]
   \<and> rev (collectNew ''S3'' (processedTxs (cursorDaemon\<lparr>lastAMMSignature := None\<rparr>))
            [\<lparr>signature = ''S5''\<rparr>, \<lparr>signature = ''S4''\<rparr>, \<lparr>signature = ''S3''\<rparr>])
       = [\<lparr>signature = ''S4''\<rparr>, \<lparr>signature = ''S5''\<rparr>]
   \<and> pollVaultTransactions cursorWorld BC ''VaultBC'' (cursorDaemon\<lparr>lastAMMSignature := None\<rparr>)
       = (processAll cursorWorld BC ''VaultBC'' [\<lparr>signature = ''S4''\<rparr>, \<lparr>signature = ''S5''\<rparr>]
            (cursorDaemon\<lparr>lastAMMSignature := None\<rparr>))\<lparr>lastBCSignature := Some ''S5''\<rparr>
   \<and> lastBCSignature
         (pollVaultTransactions cursorWorld BC ''VaultBC'' (cursorDaemon\<lparr>lastAMMSignature := None\<rparr>))
       = Some ''S5''
   \<and> tokenInfo (cursorDaemon\<lparr>lastBCSignature := None\<rparr>) = Some exampleToken
   \<and> lastAMMSignature (cursorDaemon\<lparr>lastBCSignature := None\<rparr>) = Some ''S3''
   \<and> lastBCSignature (cursorDaemon\<lparr>lastBCSignature := None\<rparr>) = None
   \<and> getSignaturesForAddress cursorWorld (ti_creatorVaultAMM exampleToken)
       = Returns [\<lparr>signature = ''S5''\<rparr>, \<lparr>signature = ''S4''\<rparr>, \<lparr>signature = ''S3''\<rparr>]
   \<and> pollAMMVaultTransactions cursorWorld (cursorDaemon\<lparr>lastBCSignature := None\<rparr>)
       = (processAllAMM cursorWorld (ti_creatorVaultAMM exampleToken)
            [\<lparr>signature = ''S4''\<rparr>, \<lparr>signature = ''S5''\<rparr>]
            (cursorDaemon\<lparr>lastBCSignature := None\<rparr>))\<lparr>lastAMMSignature := Some ''S5''\<rparr>
   \<and> lastAMMSignature (pollAMMVaultTransactions cursorWorld (cursorDaemon\<lparr>lastBCSignature := None\<rparr>))
       = Some ''S5''"
proof -
  let ?b = "cursorDaemon\<lparr>lastAMMSignature := None\<rparr>"
  let ?a = "cursorDaemon\<lparr>lastBCSignature := None\<rparr>"
  let ?s5 = "\<lparr>signature = ''S5''\<rparr>" and ?s4 = "\<lparr>signature = ''S4''\<rparr>"
    and ?s3 = "\<lparr>signature = ''S3''\<rparr>"
  have b: "lastBCSignature ?b = Some ''S3''" "lastAMMSignature ?b = None"
    "getSignaturesForAddress cursorWorld ''VaultBC'' = Returns [?s5, ?s4, ?s3]"
    "processedTxs ?b = {}"
    by (simp_all add: cursorDaemon_def exampleDaemon_def cursorWorld_def quietWorld_def)
  have a: "tokenInfo ?a = Some exampleToken" "lastAMMSignature ?a = Some ''S3''"
    "lastBCSignature ?a = None"
    "getSignaturesForAddress cursorWorld (ti_creatorVaultAMM exampleToken) = Returns [?s5, ?s4, ?s3]"
    "processedTxs ?a = {}"
    by (simp_all add: cursorDaemon_def exampleDaemon_def cursorWorld_def quietWorld_def)
  note t = cursor_yields_new_oldest_first[where st = ?b and lastSig = "''S3''"
      and w = cursorWorld and v = "''VaultBC''" and sigs = "[?s5, ?s4, ?s3]"
      and yielded = "[?s4, ?s5]" and vt = BC and ?s5.0 = ?s5 and ?s4.0 = ?s4 and ?s3.0 = ?s3
      and ast = ?a and ti = exampleToken and alastSig = "''S3''" and aw = cursorWorld
      and asigs = "[?s5, ?s4, ?s3]" and ayielded = "[?s4, ?s5]"
      and ?a5.0 = ?s5 and ?a4.0 = ?s4 and ?a3.0 = ?s3]
  have hb: "lastBCSignature ?b = Some ''S3'' \<and> ''S3'' \<noteq> []
      \<and> getSignaturesForAddress cursorWorld ''VaultBC'' = Returns [?s5, ?s4, ?s3]
      \<and> [?s4, ?s5] = rev (filter (\<lambda>s. signature s \<notin> processedTxs ?b)
                          (takeWhile (\<lambda>s. signature s \<noteq> ''S3'') [?s5, ?s4, ?s3]))"
    using b by simp
  have ha: "tokenInfo ?a = Some exampleToken \<and> lastAMMSignature ?a = Some ''S3'' \<and> ''S3'' \<noteq> []
      \<and> getSignaturesForAddress cursorWorld (ti_creatorVaultAMM exampleToken) = Returns [?s5, ?s4, ?s3]
      \<and> [?s4, ?s5] = rev (filter (\<lambda>s. signature s \<notin> processedTxs ?a)
                          (takeWhile (\<lambda>s. signature s \<noteq> ''S3'') [?s5, ?s4, ?s3]))"
    using a by simp
  from t[THEN conjunct1, THEN mp, OF hb] t[THEN conjunct2, THEN mp, OF ha] a(1-4) b(1-3)
  show ?thesis
    by (simp del: processAll.simps processAllAMM.simps collectNew.simps)
qed

text \<open>
  Claim C7, as the code has it, for each pipeline apart.  With its cursor initialized and
  a non-empty list, the cursor after the poll is the newest listed signature when at least
  one signature was yielded; when none was yielded the poll returns before the update and
  leaves the whole state, the cursor included, as it was.  The cursor then still equals
  the newest listed signature when the list begins with the cursor itself.
\<close>

theorem cursor_advances_when_yielding:
  "(lastBCSignature st = Some lastSig \<and> lastSig \<noteq> []
      \<and> getSignaturesForAddress w v = Returns sigs \<and> sigs \<noteq> []
    \<longrightarrow> lastBCSignature (pollVaultTransactions w vt v st)
          = (if collectNew lastSig (processedTxs st) sigs = [] then Some lastSig
             else Some (signature (hd sigs)))
        \<and> (collectNew lastSig (processedTxs st) sigs = []
            \<longrightarrow> pollVaultTransactions w vt v st = st)
        \<and> (signature (hd sigs) = lastSig
            \<longrightarrow> lastBCSignature (pollVaultTransactions w vt v st) = Some (signature (hd sigs))))
   \<and> (tokenInfo ast = Some ti \<and> lastAMMSignature ast = Some alastSig \<and> alastSig \<noteq> []
      \<and> getSignaturesForAddress aw (ti_creatorVaultAMM ti) = Returns asigs \<and> asigs \<noteq> []
    \<longrightarrow> lastAMMSignature (pollAMMVaultTransactions aw ast)
          = (if collectNew alastSig (processedTxs ast) asigs = [] then Some alastSig
             else Some (signature (hd asigs)))
        \<and> (collectNew alastSig (processedTxs ast) asigs = []
            \<longrightarrow> pollAMMVaultTransactions aw ast = ast)
        \<and> (signature (hd asigs) = alastSig
            \<longrightarrow> lastAMMSignature (pollAMMVaultTransactions aw ast) = Some (signature (hd asigs))))"
proof -
  have hd: "collectNew l p xs = []" if "signature (hd xs) = l" "xs \<noteq> []"
    for l p and xs :: "ConfirmedSignatureInfo list"
    using that by (cases xs) simp_all
  have b: "lastBCSignature (pollVaultTransactions w vt v st)
          = (if collectNew lastSig (processedTxs st) sigs = [] then Some lastSig
             else Some (signature (hd sigs)))
        \<and> (collectNew lastSig (processedTxs st) sigs = []
            \<longrightarrow> pollVaultTransactions w vt v st = st)
        \<and> (signature (hd sigs) = lastSig
            \<longrightarrow> lastBCSignature (pollVaultTransactions w vt v st) = Some (signature (hd sigs)))"
    if h: "lastBCSignature st = Some lastSig" "lastSig \<noteq> []"
      "getSignaturesForAddress w v = Returns sigs" "sigs \<noteq> []"
    using pollVaultTransactions_initialized[OF h(1,2,3), of vt] hd[OF _ h(4), of lastSig] h(1)
    by auto
  have a: "lastAMMSignature (pollAMMVaultTransactions aw ast)
          = (if collectNew alastSig (processedTxs ast) asigs = [] then Some alastSig
             else Some (signature (hd asigs)))
        \<and> (collectNew alastSig (processedTxs ast) asigs = []
            \<longrightarrow> pollAMMVaultTransactions aw ast = ast)
        \<and> (signature (hd asigs) = alastSig
            \<longrightarrow> lastAMMSignature (pollAMMVaultTransactions aw ast) = Some (signature (hd asigs)))"
    if h: "tokenInfo ast = Some ti" "lastAMMSignature ast = Some alastSig" "alastSig \<noteq> []"
      "getSignaturesForAddress aw (ti_creatorVaultAMM ti) = Returns asigs" "asigs \<noteq> []"
    using pollAMMVaultTransactions_initialized[OF h(1,2,3,4)] hd[OF _ h(5), of alastSig] h(2)
    by auto
  from a b show ?thesis by blast
qed

text \<open>
  Claim C7, an instance: two new signatures, and the cursor of the polled pipeline moves
  to S5 while the other cursor is unset.
\<close>

theorem cursor_advances_when_yielding_witness:
  "lastBCSignature (cursorDaemon\<lparr>lastAMMSignature := None\<rparr>) = Some ''S3''
   \<and> lastAMMSignature (cursorDaemon\<lparr>lastAMMSignature := None\<rparr>) = None
   \<and> getSignaturesForAddress cursorWorld ''VaultBC''
       = Returns [\<lparr>signature = ''S5''\<rparr>, \<lparr>signature = ''S4''\<rparr>, \<lparr>signature = ''S3''\<rparr>]
   \<and> collectNew ''S3'' (processedTxs (cursorDaemon\<lparr>lastAMMSignature := None\<rparr>))
        [\<lparr>signature = ''S5''\<rparr>, \<lparr>signature = ''S4''\<rparr>, \<lparr>signature = ''S3''\<rparr>] \<noteq> []
   \<and> lastBCSignature
         (pollVaultTransactions cursorWorld BC ''VaultBC'' (cursorDaemon\<lparr>lastAMMSignature := None\<rparr>))
       = Some ''S5''
   \<and> tokenInfo (cursorDaemon\<lparr>lastBCSignature := None\<rparr>) = Some exampleToken
   \<and> lastAMMSignature (cursorDaemon\<lparr>lastBCSignature := None\<rparr>) = Some ''S3''
   \<and> lastBCSignature (cursorDaemon\<lparr>lastBCSignature := None\<rparr>) = None
   \<and> getSignaturesForAddress cursorWorld (ti_creatorVaultAMM exampleToken)
       = Returns [\<lparr>signature = ''S5''\<rparr>, \<lparr>signature = ''S4''\<rparr>, \<lparr>signature = ''S3''\<rparr>]
   \<and> lastAMMSignature (pollAMMVaultTransactions cursorWorld (cursorDaemon\<lparr>lastBCSignature := None\<rparr>))
       = Some ''S5''"
proof -
  let ?b = "cursorDaemon\<lparr>lastAMMSignature := None\<rparr>"
  let ?a = "cursorDaemon\<lparr>lastBCSignature := None\<rparr>"
  let ?s5 = "\<lparr>signature = ''S5''\<rparr>" and ?s4 = "\<lparr>signature = ''S4''\<rparr>"
    and ?s3 = "\<lparr>signature = ''S3''\<rparr>"
  have b: "lastBCSignature ?b = Some ''S3''" "lastAMMSignature ?b = None"
    "getSignaturesForAddress cursorWorld ''VaultBC'' = Returns [?s5, ?s4, ?s3]"
    "processedTxs ?b = {}"
    by (simp_all add: cursorDaemon_def exampleDaemon_def cursorWorld_def quietWorld_def)
  have a: "tokenInfo ?a = Some exampleToken" "lastAMMSignature ?a = Some ''S3''"
    "lastBCSignature ?a = None"
    "getSignaturesForAddress cursorWorld (ti_creatorVaultAMM exampleToken) = Returns [?s5, ?s4, ?s3]"
    "processedTxs ?a = {}"
    by (simp_all add: cursorDaemon_def exampleDaemon_def cursorWorld_def quietWorld_def)
  have c: "collectNew ''S3'' {} [?s5, ?s4, ?s3] = [?s5, ?s4]" by simp
  note t = cursor_advances_when_yielding[where st = ?b and lastSig = "''S3''"
      and w = cursorWorld and v = "''VaultBC''" and sigs = "[?s5, ?s4, ?s3]" and vt = BC
      and ast = ?a and ti = exampleToken and alastSig = "''S3''" and aw = cursorWorld
      and asigs = "[?s5, ?s4, ?s3]"]
  have hb: "lastBCSignature ?b = Some ''S3'' \<and> ''S3'' \<noteq> []
      \<and> getSignaturesForAddress cursorWorld ''VaultBC'' = Returns [?s5, ?s4, ?s3]
      \<and> [?s5, ?s4, ?s3] \<noteq> []"
    using b by simp
  have ha: "tokenInfo ?a = Some exampleToken \<and> lastAMMSignature ?a = Some ''S3'' \<and> ''S3'' \<noteq> []
      \<and> getSignaturesForAddress cursorWorld (ti_creatorVaultAMM exampleToken) = Returns [?s5, ?s4, ?s3]
      \<and> [?s5, ?s4, ?s3] \<noteq> []"
    using a by simp
  from t[THEN conjunct1, THEN mp, OF hb] t[THEN conjunct2, THEN mp, OF ha] a b c
  show ?thesis
    by (simp del: collectNew.simps)
qed

text \<open>
  Claim C7 as stated fails: the cursor stands at S3, the newer signatures S5 and S4 are in
  the processed set already, nothing is yielded, and the cursor stays at S3 although the
  newest listed signature is S5.
\<close>

theorem cursor_stays_counterexample:
  "lastBCSignature (cursorDaemon\<lparr>processedTxs := {''S4'', ''S5''}\<rparr>) = Some ''S3''
   \<and> getSignaturesForAddress cursorWorld ''VaultBC''
       = Returns [\<lparr>signature = ''S5''\<rparr>, \<lparr>signature = ''S4''\<rparr>, \<lparr>signature = ''S3''\<rparr>]
   \<and> lastBCSignature
        (pollVaultTransactions cursorWorld BC ''VaultBC'' (cursorDaemon\<lparr>processedTxs := {''S4'', ''S5''}\<rparr>))
       = Some ''S3''
   \<and> lastAMMSignature
        (pollAMMVaultTransactions cursorWorld (cursorDaemon\<lparr>processedTxs := {''S4'', ''S5''}\<rparr>))
       = Some ''S3''"
  by (simp add: pollVaultTransactions_def pollAMMVaultTransactions_def cursorDaemon_def
        exampleDaemon_def exampleToken_def cursorWorld_def quietWorld_def unset_def cursor_def)

text \<open>
  Claim C9, as the transaction-sourced revision has it.  A poll tick after which the
  migration flag is false began with the flag false, leaves the cursor and the fee total of
  the AMM vault as they were, keeps the entries of the history, and appends entries of the
  bonding-curve vault only: the AMM pipeline runs in a tick only when the flag is set once
  the bonding-curve vault was polled.
\<close>

theorem amm_pipeline_only_when_migrated:
  assumes "\<not> isMigrated (poll w st)"
  shows "\<not> isMigrated st
     \<and> lastAMMSignature (poll w st) = lastAMMSignature st
     \<and> ammFees (poll w st) = ammFees st
     \<and> take (length (entriesOf st)) (entriesOf (poll w st)) = entriesOf st
     \<and> list_all (\<lambda>e. vaultType e = BC) (drop (length (entriesOf st)) (entriesOf (poll w st)))"
proof -
  from assms have m: "\<not> isMigrated st" using poll_isMigrated_mono by blast
  from poll_not_migrated[OF assms] obtain new where
    a: "lastAMMSignature (poll w st) = lastAMMSignature st" "ammFees (poll w st) = ammFees st"
    and n: "entriesOf (poll w st) = entriesOf st @ new" "list_all (\<lambda>e. vaultType e = BC) new"
    by (auto simp: appends_def)
  from m a n show ?thesis by simp
qed

text \<open>
  Claim C9, an instance: a tick that appends one bonding-curve entry for an unmigrated
  token.
\<close>

theorem amm_pipeline_only_when_migrated_witness:
  "\<not> isMigrated (poll feeWorld exampleDaemon)
   \<and> \<not> isMigrated exampleDaemon
   \<and> lastAMMSignature (poll feeWorld exampleDaemon) = None
   \<and> ammFees (poll feeWorld exampleDaemon) = 0
   \<and> entriesOf exampleDaemon = []
   \<and> map vaultType (entriesOf (poll feeWorld exampleDaemon)) = [BC]"
proof -
  have m: "\<not> isMigrated (poll feeWorld exampleDaemon)"
    by (simp add: poll_def isMigrated_def exampleDaemon_def exampleToken_def feeWorld_def
        quietWorld_def checkMigration_def Let_def)
  have e: "map vaultType (entriesOf (poll feeWorld exampleDaemon)) = [BC]"
    by (simp add: poll_def isMigrated_def exampleDaemon_def exampleToken_def feeWorld_def
        quietWorld_def checkMigration_def Let_def pollVaultTransactions_def unset_def cursor_def
        processTransaction_def feeTx_def accountKeysOf_def balanceAt_def recordFee_def
        createHistoryEntry_def Date_toISOString_def validTime_def exampleLog_def)
     (simp add: entriesOf_def)
  have s: "lastAMMSignature exampleDaemon = None" "ammFees exampleDaemon = 0"
    "entriesOf exampleDaemon = []"
    by (simp_all add: exampleDaemon_def entriesOf_def exampleLog_def)
  from amm_pipeline_only_when_migrated[OF m] m e s show ?thesis by simp
qed

text \<open>
  Claim C9 as stated fails in the balance-polling revision, whose poll reads the AMM vault
  on every tick: the flag is false before and after the tick, and the tick records 700
  lamports of AMM fees, moves the last AMM balance and appends an AMM entry.
\<close>

theorem amm_vault_polled_unmigrated_counterexample:
  "\<not> isMigrated_bal exampleDaemon_bal
   \<and> \<not> isMigrated_bal (poll_bal quietWorld exampleDaemon_bal)
   \<and> lastAMMBalance exampleDaemon_bal = 0
   \<and> lastAMMBalance (poll_bal quietWorld exampleDaemon_bal) = 700
   \<and> ammFees_bal exampleDaemon_bal = 0
   \<and> ammFees_bal (poll_bal quietWorld exampleDaemon_bal) = 700
   \<and> entriesOf_bal exampleDaemon_bal = []
   \<and> map vaultType (entriesOf_bal (poll_bal quietWorld exampleDaemon_bal)) = [AMM]"
proof -
  have p: "poll_bal quietWorld exampleDaemon_bal
      = pollVault quietWorld AMM ''VaultAMM'' exampleDaemon_bal"
    by (simp add: poll_bal_def exampleDaemon_bal_def exampleToken_def quietWorld_def
        checkMigration_bal_def pollVault_def Let_def TokenInfo_bal.truncate_def)
  show ?thesis
    unfolding p
    by (simp add: isMigrated_bal_def exampleDaemon_bal_def exampleToken_def quietWorld_def
        pollVault_def handleBalanceChange_def Let_def TokenInfo_bal.truncate_def
        createHistoryEntry_bal_def Date_toISOString_def validTime_def exampleLog_bal_def
        saveHistory_bal_def saveHistoryThrows_bal_def entriesOf_bal_def)
qed






end
